theory Spec2Isabelle
  imports Main "HOL-Library.Sublist"
begin

section \<open>Data model\<close>

text \<open>
  The program works on the record types of the People API client library
  (\<^verbatim>\<open>people.Person\<close>, \<^verbatim>\<open>people.ContactGroup\<close>, ...). Each repeatable field of a person
  is a slice of pointers to structs that carry a \<^verbatim>\<open>Metadata *FieldMetadata\<close> stamp next to
  their own values. A struct is a record here; every field struct extends the record
  \<open>field\<close>, which holds the stamp, so that \<open>Metadata\<close> reads and writes the stamp of any of
  them. A pointer that the program tests against \<^verbatim>\<open>nil\<close> or sets to \<^verbatim>\<open>nil\<close> is an
  \<open>option\<close>; a slice is a list, and its elements are the structs themselves (the decoder
  of the client library yields no \<^verbatim>\<open>nil\<close> element for the objects the service sends).
  Of the field structs that the program only passes on, one opaque \<open>payload\<close> is kept.
  Go's \<^verbatim>\<open>int\<close> and \<^verbatim>\<open>int64\<close> are \<open>int\<close>: the numbers here are lengths of slices and calendar
  dates, far from the 64-bit bounds.
\<close>

record field_metadata =
  Primary :: bool
  SourcePrimary :: bool
  Verified :: bool
  Source :: "(string \<times> string) option"

record field =
  Metadata :: "field_metadata option"

record date =
  Year :: int
  Month :: int
  Day :: int

record name = field +
  HonorificPrefix :: string
  GivenName :: string
  MiddleName :: string
  FamilyName :: string
  HonorificSuffix :: string
  PhoneticGivenName :: string
  PhoneticMiddleName :: string
  PhoneticFamilyName :: string

record nickname = field +
  nickname_Value :: string

record file_as = field +
  file_as_Value :: string

record email_address = field +
  email_Type :: string
  email_Value :: string

record phone_number = field +
  phone_Type :: string
  phone_Value :: string

record address = field +
  address_Type :: string
  StreetAddress :: string
  ExtendedAddress :: string
  City :: string
  Region :: string
  PostalCode :: string
  Country :: string
  PoBox :: string

record organization = field +
  org_Name :: string
  Title :: string
  Department :: string

record birthday = field +
  birthday_Date :: "date option"

record biography = field +
  biography_Value :: string

record url = field +
  url_Type :: string
  url_Value :: string

record user_defined = field +
  Key :: string
  user_defined_Value :: string

record event = field +
  event_Type :: string
  event_Date :: "date option"

record relation = field +
  relation_Type :: string
  Person :: string

record other_field = field +
  payload :: string

record contact_group_membership =
  ContactGroupId :: string
  ContactGroupResourceName :: string

record membership = field +
  ContactGroupMembership :: "contact_group_membership option"
  DomainMembership :: "bool option"

record person =
  ResourceName :: string
  Etag :: string
  person_Metadata :: "string option"
  Names :: "name list"
  Nicknames :: "nickname list"
  EmailAddresses :: "email_address list"
  PhoneNumbers :: "phone_number list"
  Addresses :: "address list"
  Organizations :: "organization list"
  Birthdays :: "birthday list"
  Biographies :: "biography list"
  Urls :: "url list"
  UserDefined :: "user_defined list"
  Events :: "event list"
  Relations :: "relation list"
  Occupations :: "other_field list"
  Genders :: "other_field list"
  ImClients :: "other_field list"
  Interests :: "other_field list"
  SipAddresses :: "other_field list"
  CalendarUrls :: "other_field list"
  ExternalIds :: "other_field list"
  Locales :: "other_field list"
  Locations :: "other_field list"
  MiscKeywords :: "other_field list"
  ClientData :: "other_field list"
  Memberships :: "membership list"
  FileAses :: "file_as list"
  Photos :: "other_field list"

record contact_group =
  group_ResourceName :: string
  group_Name :: string
  GroupType :: string

section \<open>Record sanitizer\<close>

text \<open>
  \<^verbatim>\<open>strings.HasPrefix(s, prefix)\<close>.
\<close>

definition HasPrefix :: "string \<Rightarrow> string \<Rightarrow> bool" where
  "HasPrefix s pre = prefix pre s"

text \<open>
  The membership that \<^verbatim>\<open>cleanContactForCreation\<close> allocates for a user group: only the
  resource name of the group is set, every other field has its zero value.
\<close>

definition newMembership :: "string \<Rightarrow> membership" where
  "newMembership newResourceName =
     \<lparr>Metadata = None,
      ContactGroupMembership =
        Some \<lparr>ContactGroupId = '''', ContactGroupResourceName = newResourceName\<rparr>,
      DomainMembership = None\<rparr>"

text \<open>
  The loop over \<^verbatim>\<open>contact.Memberships\<close>, with \<open>newMemberships\<close> as its accumulator and
  the tests in the order of the source: first the prefix test for a user group, then the
  comparison with \<^verbatim>\<open>contactGroups/myContacts\<close>. The remap table \<^verbatim>\<open>map[string]string\<close> is a
  map; the two-valued lookup \<^verbatim>\<open>v, ok := groupMap[k]\<close> is the lookup of the map.
\<close>

fun rewriteMemberships ::
  "(string \<rightharpoonup> string) \<Rightarrow> membership list \<Rightarrow> membership list \<Rightarrow> membership list" where
  "rewriteMemberships groupMap newMemberships [] = newMemberships"
| "rewriteMemberships groupMap newMemberships (membership # rest) =
     (case ContactGroupMembership membership of
        None \<Rightarrow> rewriteMemberships groupMap newMemberships rest
      | Some cgm \<Rightarrow>
          (let oldResourceName = ContactGroupResourceName cgm in
           if HasPrefix oldResourceName ''contactGroups/'' \<and>
              \<not> HasPrefix oldResourceName ''contactGroups/myContacts'' \<and>
              \<not> HasPrefix oldResourceName ''contactGroups/starred'' \<and>
              \<not> HasPrefix oldResourceName ''contactGroups/chatBuddies'' \<and>
              \<not> HasPrefix oldResourceName ''contactGroups/all'' \<and>
              \<not> HasPrefix oldResourceName ''contactGroups/friends'' \<and>
              \<not> HasPrefix oldResourceName ''contactGroups/family'' \<and>
              \<not> HasPrefix oldResourceName ''contactGroups/coworkers''
           then
             (case groupMap oldResourceName of
                Some newResourceName \<Rightarrow>
                  rewriteMemberships groupMap
                    (newMemberships @ [newMembership newResourceName]) rest
              | None \<Rightarrow> rewriteMemberships groupMap newMemberships rest)
           else if oldResourceName = ''contactGroups/myContacts''
           then rewriteMemberships groupMap (newMemberships @ [membership]) rest
           else rewriteMemberships groupMap newMemberships rest))"

text \<open>
  \<^verbatim>\<open>clearFieldMetadata\<close> sets the stamp of every element of twenty-three slices to
  \<^verbatim>\<open>nil\<close>, in place; the model returns the person with the cleared elements. It has no
  loop over \<^verbatim>\<open>person.Memberships\<close>.
\<close>

definition clearFieldMetadata :: "person \<Rightarrow> person" where
  "clearFieldMetadata person =
     person
      \<lparr>Names := map (\<lambda>name. name\<lparr>Metadata := None\<rparr>) (Names person),
       Nicknames := map (\<lambda>nickname. nickname\<lparr>Metadata := None\<rparr>) (Nicknames person),
       EmailAddresses := map (\<lambda>email. email\<lparr>Metadata := None\<rparr>) (EmailAddresses person),
       PhoneNumbers := map (\<lambda>phone. phone\<lparr>Metadata := None\<rparr>) (PhoneNumbers person),
       Addresses := map (\<lambda>addr. addr\<lparr>Metadata := None\<rparr>) (Addresses person),
       Organizations := map (\<lambda>org. org\<lparr>Metadata := None\<rparr>) (Organizations person),
       Birthdays := map (\<lambda>bday. bday\<lparr>Metadata := None\<rparr>) (Birthdays person),
       Biographies := map (\<lambda>bio. bio\<lparr>Metadata := None\<rparr>) (Biographies person),
       Urls := map (\<lambda>url. url\<lparr>Metadata := None\<rparr>) (Urls person),
       UserDefined := map (\<lambda>ud. ud\<lparr>Metadata := None\<rparr>) (UserDefined person),
       Events := map (\<lambda>event. event\<lparr>Metadata := None\<rparr>) (Events person),
       Relations := map (\<lambda>rel. rel\<lparr>Metadata := None\<rparr>) (Relations person),
       Occupations := map (\<lambda>occ. occ\<lparr>Metadata := None\<rparr>) (Occupations person),
       Genders := map (\<lambda>gender. gender\<lparr>Metadata := None\<rparr>) (Genders person),
       ImClients := map (\<lambda>im. im\<lparr>Metadata := None\<rparr>) (ImClients person),
       Interests := map (\<lambda>interest. interest\<lparr>Metadata := None\<rparr>) (Interests person),
       SipAddresses := map (\<lambda>sip. sip\<lparr>Metadata := None\<rparr>) (SipAddresses person),
       CalendarUrls := map (\<lambda>cal. cal\<lparr>Metadata := None\<rparr>) (CalendarUrls person),
       ExternalIds := map (\<lambda>ext. ext\<lparr>Metadata := None\<rparr>) (ExternalIds person),
       Locales := map (\<lambda>locale. locale\<lparr>Metadata := None\<rparr>) (Locales person),
       Locations := map (\<lambda>loc. loc\<lparr>Metadata := None\<rparr>) (Locations person),
       MiscKeywords := map (\<lambda>misc. misc\<lparr>Metadata := None\<rparr>) (MiscKeywords person),
       ClientData := map (\<lambda>cd. cd\<lparr>Metadata := None\<rparr>) (ClientData person)\<rparr>"

text \<open>
  \<^verbatim>\<open>cleanContactForCreation\<close>: the new person takes twenty-three slices of the contact;
  its resource name, etag, person metadata, file-as entries and photos keep their zero
  values. The memberships are set only when the contact has some.
\<close>

definition cleanContactForCreation :: "person \<Rightarrow> (string \<rightharpoonup> string) \<Rightarrow> person" where
  "cleanContactForCreation contact groupMap =
     (let newPerson =
        \<lparr>ResourceName = '''', Etag = '''', person_Metadata = None,
         Names = Names contact,
         Nicknames = Nicknames contact,
         EmailAddresses = EmailAddresses contact,
         PhoneNumbers = PhoneNumbers contact,
         Addresses = Addresses contact,
         Organizations = Organizations contact,
         Birthdays = Birthdays contact,
         Biographies = Biographies contact,
         Urls = Urls contact,
         UserDefined = UserDefined contact,
         Events = Events contact,
         Relations = Relations contact,
         Occupations = Occupations contact,
         Genders = Genders contact,
         ImClients = ImClients contact,
         Interests = Interests contact,
         SipAddresses = SipAddresses contact,
         CalendarUrls = CalendarUrls contact,
         ExternalIds = ExternalIds contact,
         Locales = Locales contact,
         Locations = Locations contact,
         MiscKeywords = MiscKeywords contact,
         ClientData = ClientData contact,
         Memberships = [], FileAses = [], Photos = []\<rparr>;
        newPerson' =
          (if length (Memberships contact) > 0
           then newPerson\<lparr>Memberships := rewriteMemberships groupMap [] (Memberships contact)\<rparr>
           else newPerson)
      in clearFieldMetadata newPerson')"

text \<open>
  \<^verbatim>\<open>isSystemGroup\<close> of the tabular export: the comparison of a resource name with the eight
  names of the list \<^verbatim>\<open>systemGroups\<close>.
\<close>

definition systemGroups :: "string list" where
  "systemGroups =
     [''contactGroups/myContacts'', ''contactGroups/starred'', ''contactGroups/chatBuddies'',
      ''contactGroups/all'', ''contactGroups/friends'', ''contactGroups/family'',
      ''contactGroups/coworkers'', ''contactGroups/blocked'']"

fun isSystemGroupLoop :: "string \<Rightarrow> string list \<Rightarrow> bool" where
  "isSystemGroupLoop resourceName [] = False"
| "isSystemGroupLoop resourceName (sg # rest) =
     (if resourceName = sg then True else isSystemGroupLoop resourceName rest)"

definition isSystemGroup :: "string \<Rightarrow> bool" where
  "isSystemGroup resourceName = isSystemGroupLoop resourceName systemGroups"

text \<open>
  Sample data for the sanitizer: a person with all slices empty, a stamp as the service
  assigns it, a contact with one entry in every field group and four memberships, and
  a remap table with one user group.
\<close>

definition emptyPerson :: person where
  "emptyPerson =
     \<lparr>ResourceName = '''', Etag = '''', person_Metadata = None,
      Names = [], Nicknames = [], EmailAddresses = [], PhoneNumbers = [], Addresses = [],
      Organizations = [], Birthdays = [], Biographies = [], Urls = [], UserDefined = [],
      Events = [], Relations = [], Occupations = [], Genders = [], ImClients = [],
      Interests = [], SipAddresses = [], CalendarUrls = [], ExternalIds = [], Locales = [],
      Locations = [], MiscKeywords = [], ClientData = [],
      Memberships = [], FileAses = [], Photos = []\<rparr>"

definition stamp :: field_metadata where
  "stamp = \<lparr>Primary = True, SourcePrimary = True, Verified = False,
            Source = Some (''CONTACT'', ''5f3a'')\<rparr>"

definition membershipOf :: "string \<Rightarrow> membership" where
  "membershipOf resourceName =
     \<lparr>Metadata = Some stamp,
      ContactGroupMembership =
        Some \<lparr>ContactGroupId = drop 14 resourceName, ContactGroupResourceName = resourceName\<rparr>,
      DomainMembership = None\<rparr>"

definition otherField :: "string \<Rightarrow> other_field" where
  "otherField v = \<lparr>Metadata = Some stamp, payload = v\<rparr>"

definition sampleContact :: person where
  "sampleContact =
     \<lparr>ResourceName = ''people/c5f3a'', Etag = ''%EgU'', person_Metadata = Some ''CONTACT'',
      Names = [\<lparr>Metadata = Some stamp, HonorificPrefix = ''Dr'', GivenName = ''Ada'',
                MiddleName = '''', FamilyName = ''Lovelace'', HonorificSuffix = '''',
                PhoneticGivenName = '''', PhoneticMiddleName = '''',
                PhoneticFamilyName = ''''\<rparr>],
      Nicknames = [\<lparr>Metadata = Some stamp, nickname_Value = ''ada''\<rparr>],
      EmailAddresses =
        [\<lparr>Metadata = Some stamp, email_Type = ''home'', email_Value = ''ada@example.org''\<rparr>],
      PhoneNumbers = [\<lparr>Metadata = Some stamp, phone_Type = ''mobile'', phone_Value = ''555''\<rparr>],
      Addresses =
        [\<lparr>Metadata = Some stamp, address_Type = ''home'', StreetAddress = ''1 Main St'',
          ExtendedAddress = '''', City = ''London'', Region = '''', PostalCode = ''N1'',
          Country = ''UK'', PoBox = ''''\<rparr>],
      Organizations =
        [\<lparr>Metadata = Some stamp, org_Name = ''Analytical'', Title = ''Engineer'',
          Department = ''''\<rparr>],
      Birthdays =
        [\<lparr>Metadata = Some stamp, birthday_Date = Some \<lparr>Year = 1815, Month = 12, Day = 10\<rparr>\<rparr>],
      Biographies = [\<lparr>Metadata = Some stamp, biography_Value = ''notes''\<rparr>],
      Urls = [\<lparr>Metadata = Some stamp, url_Type = ''blog'', url_Value = ''http://a.example''\<rparr>],
      UserDefined = [\<lparr>Metadata = Some stamp, Key = ''k'', user_defined_Value = ''v''\<rparr>],
      Events = [\<lparr>Metadata = Some stamp, event_Type = ''anniversary'', event_Date = None\<rparr>],
      Relations = [\<lparr>Metadata = Some stamp, relation_Type = ''friend'', Person = ''Charles''\<rparr>],
      Occupations = [otherField ''mathematician''],
      Genders = [otherField ''female''],
      ImClients = [otherField ''im''],
      Interests = [otherField ''engines''],
      SipAddresses = [otherField ''sip''],
      CalendarUrls = [otherField ''cal''],
      ExternalIds = [otherField ''ext''],
      Locales = [otherField ''en''],
      Locations = [otherField ''desk''],
      MiscKeywords = [otherField ''kw''],
      ClientData = [otherField ''cd''],
      Memberships =
        [membershipOf ''contactGroups/myContacts'', membershipOf ''contactGroups/3c1f'',
         membershipOf ''contactGroups/starred'', membershipOf ''contactGroups/77aa''],
      FileAses = [\<lparr>Metadata = Some stamp, file_as_Value = ''Lovelace, Ada''\<rparr>],
      Photos = [otherField ''photo'']\<rparr>"

definition sampleMap :: "string \<rightharpoonup> string" where
  "sampleMap = [''contactGroups/3c1f'' \<mapsto> ''contactGroups/9d20'']"

definition stampedContact :: person where
  "stampedContact = emptyPerson\<lparr>ResourceName := ''people/c1'',
     Memberships := [membershipOf ''contactGroups/myContacts'']\<rparr>"

definition alliesContact :: person where
  "alliesContact = emptyPerson\<lparr>ResourceName := ''people/c2'',
     Memberships := [membershipOf ''contactGroups/allies'']\<rparr>"

definition alliesMap :: "string \<rightharpoonup> string" where
  "alliesMap = [''contactGroups/allies'' \<mapsto> ''contactGroups/51e0'']"

definition blockedContact :: person where
  "blockedContact = emptyPerson\<lparr>ResourceName := ''people/c3'',
     Memberships := [membershipOf ''contactGroups/blocked'']\<rparr>"

definition blockedMap :: "string \<rightharpoonup> string" where
  "blockedMap = [''contactGroups/blocked'' \<mapsto> ''contactGroups/51e0'']"

section \<open>Directory client\<close>

text \<open>
  An error value is a message, or a message wrapped around the error that caused it:
  \<open>Wrap ctx err\<close> is \<^verbatim>\<open>fmt.Errorf("ctx: %w", err)\<close>.
\<close>

datatype error = Err string | Wrap string error

fun errorString :: "error \<Rightarrow> string" where
  "errorString (Err msg) = msg"
| "errorString (Wrap ctx err) = ctx @ '': '' @ errorString err"

text \<open>
  The remote service. The client issues its requests one at a time, so a run is the
  list of the requests sent so far, and the service is a function from that history and
  the next request to the response: whatever state the service keeps, and whatever it
  answers, is a function of this kind for the run at hand. A page token \<open>''''\<close> stands
  for a request without page token. The request to create contacts carries the contacts
  (its read mask and sources are constants).
\<close>

datatype api_call =
    ConnectionsList string
  | ContactGroupsList string
  | BatchDeleteContacts "string list"
  | ContactGroupsDelete string
  | BatchCreateContacts "person list"

record list_connections_response =
  Connections :: "person list"
  NextPageToken :: string
  TotalPeople :: int

record list_contact_groups_response =
  ContactGroups :: "contact_group list"
  groups_NextPageToken :: string

record service =
  connectionsList :: "api_call list \<Rightarrow> string \<Rightarrow> error + list_connections_response"
  contactGroupsList :: "api_call list \<Rightarrow> string \<Rightarrow> error + list_contact_groups_response"
  batchDeleteContacts :: "api_call list \<Rightarrow> string list \<Rightarrow> error option"
  contactGroupsDelete :: "api_call list \<Rightarrow> string \<Rightarrow> error option"
  batchCreateContacts :: "api_call list \<Rightarrow> person list \<Rightarrow> error option"

text \<open>
  What a run leaves behind: the requests sent, the calls of the progress callback
  (current, total), and the lines printed. Every operation takes this state and returns
  it updated. A \<^verbatim>\<open>nil\<close> progress callback is \<open>report = False\<close>. The pause between two
  requests (\<^verbatim>\<open>time.Sleep\<close>) has no effect on any of this and is left out.
\<close>

record io =
  calls :: "api_call list"
  progress :: "(int \<times> int) list"
  stdout :: "string list"

definition batchDeleteSize :: nat where
  "batchDeleteSize = 500"

definition batchCreateSize :: nat where
  "batchCreateSize = 200"

text \<open>
  \<^verbatim>\<open>ListContacts\<close>. The loop ends when a page comes without continuation token, so
  it need not end at all: the loop is a partial function, \<open>None\<close> when it runs forever.
\<close>

partial_function (option) listContactsLoop ::
  "service \<Rightarrow> bool \<Rightarrow> person list \<Rightarrow> string \<Rightarrow> int \<Rightarrow> io
     \<Rightarrow> ((error + person list) \<times> io) option" where
  "listContactsLoop svc report allContacts pageToken totalCount s =
     (case connectionsList svc (calls s) pageToken of
        Inl err \<Rightarrow>
          Some (Inl (Wrap ''failed to list contacts'' err),
                s\<lparr>calls := calls s @ [ConnectionsList pageToken]\<rparr>)
      | Inr resp \<Rightarrow>
          (let totalCount' =
                 (if totalCount = 0 \<and> TotalPeople resp > 0 then TotalPeople resp
                  else totalCount);
               allContacts' = allContacts @ Connections resp;
               s1 = s\<lparr>calls := calls s @ [ConnectionsList pageToken]\<rparr>;
               s2 = (if report
                     then s1\<lparr>progress := progress s1 @
                                [(int (length allContacts'), totalCount')]\<rparr>
                     else s1)
           in if NextPageToken resp = '''' then Some (Inr allContacts', s2)
              else listContactsLoop svc report allContacts' (NextPageToken resp) totalCount' s2))"

definition ListContacts :: "service \<Rightarrow> bool \<Rightarrow> io \<Rightarrow> ((error + person list) \<times> io) option" where
  "ListContacts svc report s = listContactsLoop svc report [] '''' 0 s"

text \<open>
  \<^verbatim>\<open>ListGroups\<close>: the same loop, without progress reports.
\<close>

partial_function (option) listGroupsLoop ::
  "service \<Rightarrow> contact_group list \<Rightarrow> string \<Rightarrow> io
     \<Rightarrow> ((error + contact_group list) \<times> io) option" where
  "listGroupsLoop svc allGroups pageToken s =
     (case contactGroupsList svc (calls s) pageToken of
        Inl err \<Rightarrow>
          Some (Inl (Wrap ''failed to list contact groups'' err),
                s\<lparr>calls := calls s @ [ContactGroupsList pageToken]\<rparr>)
      | Inr resp \<Rightarrow>
          (let allGroups' = allGroups @ ContactGroups resp;
               s1 = s\<lparr>calls := calls s @ [ContactGroupsList pageToken]\<rparr>
           in if groups_NextPageToken resp = '''' then Some (Inr allGroups', s1)
              else listGroupsLoop svc allGroups' (groups_NextPageToken resp) s1))"

definition ListGroups :: "service \<Rightarrow> io \<Rightarrow> ((error + contact_group list) \<times> io) option" where
  "ListGroups svc s = listGroupsLoop svc [] '''' s"

text \<open>
  \<^verbatim>\<open>xs[i:j]\<close> for \<open>i \<le> j \<le> length xs\<close>, the only slices the batch loops take.
\<close>

definition slice :: "'a list \<Rightarrow> nat \<Rightarrow> nat \<Rightarrow> 'a list" where
  "slice xs i j = take (j - i) (drop i xs)"

text \<open>
  \<^verbatim>\<open>DeleteAllContacts\<close>: the resource names that are not empty, then one request for
  each batch of at most \<open>batchDeleteSize\<close> names. The first request that fails ends the
  operation with its error.
\<close>

fun collectResourceNames :: "string list \<Rightarrow> person list \<Rightarrow> string list" where
  "collectResourceNames resourceNames [] = resourceNames"
| "collectResourceNames resourceNames (contact # rest) =
     (if ResourceName contact \<noteq> ''''
      then collectResourceNames (resourceNames @ [ResourceName contact]) rest
      else collectResourceNames resourceNames rest)"

function deleteLoop ::
  "service \<Rightarrow> bool \<Rightarrow> string list \<Rightarrow> int \<Rightarrow> nat \<Rightarrow> int \<Rightarrow> io \<Rightarrow> error option \<times> io" where
  "deleteLoop svc report resourceNames totalContacts i deleted s =
     (if i < length resourceNames then
        (let endIdx = (if i + batchDeleteSize > length resourceNames
                    then length resourceNames else i + batchDeleteSize);
             batch = slice resourceNames i endIdx;
             s1 = s\<lparr>calls := calls s @ [BatchDeleteContacts batch]\<rparr>
         in case batchDeleteContacts svc (calls s) batch of
              Some err \<Rightarrow> (Some (Wrap ''failed to delete contacts batch'' err), s1)
            | None \<Rightarrow>
                (let deleted' = deleted + int (length batch);
                     s2 = (if report
                           then s1\<lparr>progress := progress s1 @ [(deleted', totalContacts)]\<rparr>
                           else s1)
                 in deleteLoop svc report resourceNames totalContacts
                      (i + batchDeleteSize) deleted' s2))
      else (None, s))"
  by pat_completeness auto
termination
  by (relation "measure (\<lambda>(svc, report, resourceNames, totalContacts, i, deleted, s).
        length resourceNames - i)")
     (auto simp: batchDeleteSize_def)

definition DeleteAllContacts :: "service \<Rightarrow> bool \<Rightarrow> io \<Rightarrow> (error option \<times> io) option" where
  "DeleteAllContacts svc report s =
     (case ListContacts svc False s of
        None \<Rightarrow> None
      | Some (Inl err, s1) \<Rightarrow> Some (Some err, s1)
      | Some (Inr contacts, s1) \<Rightarrow>
          if length contacts = 0 then Some (None, s1)
          else Some (deleteLoop svc report (collectResourceNames [] contacts)
                       (int (length contacts)) 0 0 s1))"

text \<open>
  \<^verbatim>\<open>DeleteUserGroups\<close>: the groups of type \<^verbatim>\<open>USER_CONTACT_GROUP\<close> are deleted one by one.
  A deletion that fails prints a warning (\<open>deleteWarning\<close> is the line that \<^verbatim>\<open>fmt.Printf\<close>
  prints) and the loop goes on; the operation returns \<^verbatim>\<open>nil\<close> after the loop.
\<close>

definition deleteWarning :: "string \<Rightarrow> error \<Rightarrow> string" where
  "deleteWarning groupName err =
     ''Warning: failed to delete group '' @ groupName @ '': '' @ errorString err"

fun deleteGroupsLoop ::
  "service \<Rightarrow> bool \<Rightarrow> int \<Rightarrow> contact_group list \<Rightarrow> int \<Rightarrow> io \<Rightarrow> error option \<times> io" where
  "deleteGroupsLoop svc report totalGroups [] deleted s = (None, s)"
| "deleteGroupsLoop svc report totalGroups (grp # rest) deleted s =
     (let s1 = s\<lparr>calls := calls s @ [ContactGroupsDelete (group_ResourceName grp)]\<rparr>;
          (deleted', s2) =
            (case contactGroupsDelete svc (calls s) (group_ResourceName grp) of
               Some err \<Rightarrow>
                 (deleted, s1\<lparr>stdout := stdout s1 @ [deleteWarning (group_Name grp) err]\<rparr>)
             | None \<Rightarrow> (deleted + 1, s1));
          s3 = (if report
                then s2\<lparr>progress := progress s2 @ [(deleted', totalGroups)]\<rparr>
                else s2)
      in deleteGroupsLoop svc report totalGroups rest deleted' s3)"

definition DeleteUserGroups :: "service \<Rightarrow> bool \<Rightarrow> io \<Rightarrow> (error option \<times> io) option" where
  "DeleteUserGroups svc report s =
     (case ListGroups svc s of
        None \<Rightarrow> None
      | Some (Inl err, s1) \<Rightarrow> Some (Some err, s1)
      | Some (Inr groups, s1) \<Rightarrow>
          (let userGroups = filter (\<lambda>grp. GroupType grp = ''USER_CONTACT_GROUP'') groups
           in if length userGroups = 0 then Some (None, s1)
              else Some (deleteGroupsLoop svc report (int (length userGroups))
                           userGroups 0 s1)))"

text \<open>
  \<^verbatim>\<open>CreateContacts\<close>: one request for each batch of at most \<open>batchCreateSize\<close> contacts,
  each contact sanitized first.
\<close>

function createLoop ::
  "service \<Rightarrow> bool \<Rightarrow> person list \<Rightarrow> (string \<rightharpoonup> string) \<Rightarrow> int \<Rightarrow> nat \<Rightarrow> int \<Rightarrow> io
     \<Rightarrow> error option \<times> io" where
  "createLoop svc report contacts groupMap totalContacts i created s =
     (if i < length contacts then
        (let endIdx = (if i + batchCreateSize > length contacts
                    then length contacts else i + batchCreateSize);
             batch = slice contacts i endIdx;
             contactsToCreate = map (\<lambda>contact. cleanContactForCreation contact groupMap) batch;
             s1 = s\<lparr>calls := calls s @ [BatchCreateContacts contactsToCreate]\<rparr>
         in case batchCreateContacts svc (calls s) contactsToCreate of
              Some err \<Rightarrow> (Some (Wrap ''failed to create contacts batch'' err), s1)
            | None \<Rightarrow>
                (let created' = created + int (length batch);
                     s2 = (if report
                           then s1\<lparr>progress := progress s1 @ [(created', totalContacts)]\<rparr>
                           else s1)
                 in createLoop svc report contacts groupMap totalContacts
                      (i + batchCreateSize) created' s2))
      else (None, s))"
  by pat_completeness auto
termination
  by (relation "measure (\<lambda>(svc, report, contacts, groupMap, totalContacts, i, created, s).
        length contacts - i)")
     (auto simp: batchCreateSize_def)

definition CreateContacts ::
  "service \<Rightarrow> person list \<Rightarrow> (string \<rightharpoonup> string) \<Rightarrow> bool \<Rightarrow> io \<Rightarrow> error option \<times> io" where
  "CreateContacts svc contacts groupMap report s =
     (if length contacts = 0 then (None, s)
      else createLoop svc report contacts groupMap (int (length contacts)) 0 0 s)"

text \<open>
  A service that serves a finite sequence of pages linked by continuation tokens: asked
  with the token \<open>tok\<close> after the history \<open>h\<close>, it answers with the first page; every
  page but the last names the token of the next page, and the last page names none.
\<close>

fun servesContacts ::
  "service \<Rightarrow> api_call list \<Rightarrow> string \<Rightarrow> list_connections_response list \<Rightarrow> bool" where
  "servesContacts svc h tok [] = False"
| "servesContacts svc h tok (p # ps) =
     (connectionsList svc h tok = Inr p \<and>
      (if ps = [] then NextPageToken p = ''''
       else NextPageToken p \<noteq> '''' \<and>
            servesContacts svc (h @ [ConnectionsList tok]) (NextPageToken p) ps))"

fun servesGroups ::
  "service \<Rightarrow> api_call list \<Rightarrow> string \<Rightarrow> list_contact_groups_response list \<Rightarrow> bool" where
  "servesGroups svc h tok [] = False"
| "servesGroups svc h tok (p # ps) =
     (contactGroupsList svc h tok = Inr p \<and>
      (if ps = [] then groups_NextPageToken p = ''''
       else groups_NextPageToken p \<noteq> '''' \<and>
            servesGroups svc (h @ [ContactGroupsList tok]) (groups_NextPageToken p) ps))"

text \<open>
  The answers of the service to the deletion of the groups \<open>names\<close>, one after the other,
  starting from the history \<open>h\<close>.
\<close>

fun deleteOutcomes :: "service \<Rightarrow> api_call list \<Rightarrow> string list \<Rightarrow> error option list" where
  "deleteOutcomes svc h [] = []"
| "deleteOutcomes svc h (n # ns) =
     contactGroupsDelete svc h n # deleteOutcomes svc (h @ [ContactGroupsDelete n]) ns"

text \<open>
  Sample services and data for the client.
\<close>

definition contactNamed :: "string \<Rightarrow> person" where
  "contactNamed resourceName = emptyPerson\<lparr>ResourceName := resourceName\<rparr>"

definition userGroup :: "string \<Rightarrow> string \<Rightarrow> contact_group" where
  "userGroup resourceName n =
     \<lparr>group_ResourceName = resourceName, group_Name = n, GroupType = ''USER_CONTACT_GROUP''\<rparr>"

definition systemGroup :: "string \<Rightarrow> string \<Rightarrow> contact_group" where
  "systemGroup resourceName n =
     \<lparr>group_ResourceName = resourceName, group_Name = n, GroupType = ''SYSTEM_CONTACT_GROUP''\<rparr>"

definition s0 :: io where
  "s0 = \<lparr>calls = [], progress = [], stdout = []\<rparr>"

definition pagedService :: service where
  "pagedService =
     \<lparr>connectionsList = (\<lambda>h tok.
        if tok = '''' then
          Inr \<lparr>Connections = [contactNamed ''people/c1'', contactNamed ''people/c2''],
               NextPageToken = ''t1'', TotalPeople = 3\<rparr>
        else if tok = ''t1'' then
          Inr \<lparr>Connections = [contactNamed ''people/c3''], NextPageToken = '''',
               TotalPeople = 3\<rparr>
        else Inl (Err ''invalid page token'')),
      contactGroupsList = (\<lambda>h tok.
        if tok = '''' then
          Inr \<lparr>ContactGroups = [systemGroup ''contactGroups/myContacts'' ''myContacts''],
               groups_NextPageToken = ''g1''\<rparr>
        else if tok = ''g1'' then
          Inr \<lparr>ContactGroups =
                 [userGroup ''contactGroups/3c1f'' ''Team'',
                  userGroup ''contactGroups/77aa'' ''Club''],
               groups_NextPageToken = ''''\<rparr>
        else Inl (Err ''invalid page token'')),
      batchDeleteContacts = (\<lambda>h names. None),
      contactGroupsDelete = (\<lambda>h n.
        if n = ''contactGroups/3c1f'' then Some (Err ''backend error'') else None),
      batchCreateContacts = (\<lambda>h contacts. None)\<rparr>"

definition emptyService :: service where
  "emptyService =
     \<lparr>connectionsList = (\<lambda>h tok. Inr \<lparr>Connections = [], NextPageToken = '''', TotalPeople = 0\<rparr>),
      contactGroupsList = (\<lambda>h tok. Inr \<lparr>ContactGroups = [], groups_NextPageToken = ''''\<rparr>),
      batchDeleteContacts = (\<lambda>h names. None),
      contactGroupsDelete = (\<lambda>h n. None),
      batchCreateContacts = (\<lambda>h contacts. None)\<rparr>"

definition failingService :: service where
  "failingService =
     \<lparr>connectionsList = (\<lambda>h tok. Inl (Err ''unavailable'')),
      contactGroupsList = (\<lambda>h tok. Inl (Err ''unavailable'')),
      batchDeleteContacts = (\<lambda>h names. Some (Err ''unavailable'')),
      contactGroupsDelete = (\<lambda>h n. Some (Err ''unavailable'')),
      batchCreateContacts = (\<lambda>h contacts. Some (Err ''unavailable''))\<rparr>"

definition manyContacts :: "nat \<Rightarrow> person list" where
  "manyContacts n = map (\<lambda>k. contactNamed (''people/c'' @ replicate k (CHR ''x''))) [0..<n]"

definition bulkService :: service where
  "bulkService =
     \<lparr>connectionsList = (\<lambda>h tok.
        Inr \<lparr>Connections = manyContacts 501, NextPageToken = '''', TotalPeople = 501\<rparr>),
      contactGroupsList = (\<lambda>h tok. Inr \<lparr>ContactGroups = [], groups_NextPageToken = ''''\<rparr>),
      batchDeleteContacts = (\<lambda>h names. None),
      contactGroupsDelete = (\<lambda>h n. None),
      batchCreateContacts = (\<lambda>h contacts. None)\<rparr>"

section \<open>Backup store\<close>

text \<open>
  \<^verbatim>\<open>BackupFile\<close>. A \<^verbatim>\<open>time.Time\<close> is a number of nanoseconds; the zero time is \<open>0\<close>.
\<close>

type_synonym timestamp = int

record backup_file =
  Version :: string
  CreatedAt :: timestamp
  ContactCount :: int
  GroupCount :: int
  Contacts :: "person list"
  Groups :: "contact_group list"

definition BackupVersion :: string where
  "BackupVersion = ''1.0''"

text \<open>
  \<^verbatim>\<open>NewBackupFile\<close>; \<open>now\<close> is \<^verbatim>\<open>time.Now().UTC()\<close>. The counts are not set and have the
  zero value.
\<close>

definition NewBackupFile :: "timestamp \<Rightarrow> backup_file" where
  "NewBackupFile now =
     \<lparr>Version = BackupVersion, CreatedAt = now, ContactCount = 0, GroupCount = 0,
      Contacts = [], Groups = []\<rparr>"

definition AddContact :: "backup_file \<Rightarrow> person \<Rightarrow> backup_file" where
  "AddContact b contact =
     (let b1 = b\<lparr>Contacts := Contacts b @ [contact]\<rparr>
      in b1\<lparr>ContactCount := int (length (Contacts b1))\<rparr>)"

definition AddGroup :: "backup_file \<Rightarrow> contact_group \<Rightarrow> backup_file" where
  "AddGroup b grp =
     (let b1 = b\<lparr>Groups := Groups b @ [grp]\<rparr>
      in b1\<lparr>GroupCount := int (length (Groups b1))\<rparr>)"

text \<open>
  What \<^verbatim>\<open>json.Unmarshal(data, &backup)\<close> makes of the bytes of a file. Either the bytes
  are rejected (they are no JSON value, or a value has not the type of its field), or
  they are a JSON object, of which the decoder reads the six keys that the struct tags
  of \<^verbatim>\<open>BackupFile\<close> name: a key that is present with a value sets its field, a key that is
  absent or \<^verbatim>\<open>null\<close> leaves the zero value of the fresh struct. The decoder compares
  nothing with anything: the counts and the lists are read independently.
\<close>

record backup_json =
  json_version :: "string option"
  json_created_at :: "timestamp option"
  json_contact_count :: "int option"
  json_group_count :: "int option"
  json_contacts :: "person list option"
  json_groups :: "contact_group list option"

datatype file_data = Rejected error | Object backup_json

fun jsonUnmarshal :: "file_data \<Rightarrow> error + backup_file" where
  "jsonUnmarshal (Rejected err) = Inl err"
| "jsonUnmarshal (Object j) =
     Inr \<lparr>Version = (case json_version j of Some v \<Rightarrow> v | None \<Rightarrow> ''''),
          CreatedAt = (case json_created_at j of Some t \<Rightarrow> t | None \<Rightarrow> 0),
          ContactCount = (case json_contact_count j of Some n \<Rightarrow> n | None \<Rightarrow> 0),
          GroupCount = (case json_group_count j of Some n \<Rightarrow> n | None \<Rightarrow> 0),
          Contacts = (case json_contacts j of Some cs \<Rightarrow> cs | None \<Rightarrow> []),
          Groups = (case json_groups j of Some gs \<Rightarrow> gs | None \<Rightarrow> [])\<rparr>"

text \<open>
  \<^verbatim>\<open>LoadBackupFile\<close>; \<open>readFile\<close> is \<^verbatim>\<open>os.ReadFile\<close> on the file system of the run.
\<close>

definition LoadBackupFile :: "(string \<Rightarrow> error + file_data) \<Rightarrow> string \<Rightarrow> error + backup_file" where
  "LoadBackupFile readFile path =
     (case readFile path of
        Inl err \<Rightarrow> Inl (Wrap ''failed to read backup file'' err)
      | Inr data \<Rightarrow>
          (case jsonUnmarshal data of
             Inl err \<Rightarrow> Inl (Wrap ''failed to parse backup file'' err)
           | Inr backup \<Rightarrow>
               if Version backup = '''' then Inl (Err ''invalid backup file: missing version'')
               else Inr backup))"

text \<open>
  \<^verbatim>\<open>SaveToFile\<close>. \<^verbatim>\<open>json.MarshalIndent\<close> of a \<^verbatim>\<open>BackupFile\<close> writes an object with all six
  keys, since no struct tag says \<^verbatim>\<open>omitempty\<close>; it has no value to refuse in this struct,
  and the branch for its error is kept as the source has it. The file content is the
  object as the decoder will read it: how the library turns a time, a person or a group
  into bytes and back is taken to give the value back, and the indentation is of no
  account. \<^verbatim>\<open>os.WriteFile\<close> fails or not, as \<open>writeFails\<close> says for the path; when it
  succeeds the file holds the data, and when it fails the file system is taken as it was.
\<close>

definition jsonMarshalIndent :: "backup_file \<Rightarrow> error + file_data" where
  "jsonMarshalIndent b =
     Inr (Object
       \<lparr>json_version = Some (Version b), json_created_at = Some (CreatedAt b),
        json_contact_count = Some (ContactCount b), json_group_count = Some (GroupCount b),
        json_contacts = Some (Contacts b), json_groups = Some (Groups b)\<rparr>)"

definition SaveToFile ::
  "(string \<Rightarrow> error option) \<Rightarrow> (string \<Rightarrow> error + file_data) \<Rightarrow> backup_file \<Rightarrow> string
     \<Rightarrow> error option \<times> (string \<Rightarrow> error + file_data)" where
  "SaveToFile writeFails files b path =
     (case jsonMarshalIndent b of
        Inl err \<Rightarrow> (Some (Wrap ''failed to marshal backup data'' err), files)
      | Inr data \<Rightarrow>
          (case writeFails path of
             Some err \<Rightarrow> (Some (Wrap ''failed to write backup file'' err), files)
           | None \<Rightarrow> (None, files(path := Inr data))))"

text \<open>
  The invariant of the archive: each count is the length of its list.
\<close>

definition countsMatch :: "backup_file \<Rightarrow> bool" where
  "countsMatch b =
     (ContactCount b = int (length (Contacts b)) \<and> GroupCount b = int (length (Groups b)))"

text \<open>
  Sample files: none at \<^verbatim>\<open>missing.json\<close>; bytes that are no JSON; an object without
  version; an object with an empty version; an object with a version and nothing else; a
  backup of one contact; and the same backup after its count was edited to seven.
\<close>

definition sampleObject :: backup_json where
  "sampleObject =
     \<lparr>json_version = Some ''1.0'', json_created_at = Some 1700000000,
      json_contact_count = Some 1, json_group_count = Some 0,
      json_contacts = Some [contactNamed ''people/c1''], json_groups = Some []\<rparr>"

definition sampleFiles :: "string \<Rightarrow> error + file_data" where
  "sampleFiles path =
     (if path = ''garbage.json'' then Inr (Rejected (Err ''invalid character''))
      else if path = ''noversion.json'' then Inr (Object (sampleObject\<lparr>json_version := None\<rparr>))
      else if path = ''emptyversion.json''
        then Inr (Object (sampleObject\<lparr>json_version := Some ''''\<rparr>))
      else if path = ''bare.json''
        then Inr (Object \<lparr>json_version = Some ''1.0'', json_created_at = None,
                          json_contact_count = None, json_group_count = None,
                          json_contacts = None, json_groups = None\<rparr>)
      else if path = ''backup.json'' then Inr (Object sampleObject)
      else if path = ''edited.json''
        then Inr (Object (sampleObject\<lparr>json_contact_count := Some 7\<rparr>))
      else Inl (Err ''no such file or directory''))"

definition oneContactBackup :: backup_file where
  "oneContactBackup = AddContact (NewBackupFile 1700000000) (contactNamed ''people/c1'')"

section \<open>Tabular export\<close>

text \<open>
  \<^verbatim>\<open>csvFieldCounts\<close>. The fields are named \<open>count_\<dots>\<close>, since a person has fields
  \<open>Addresses\<close>, \<open>Events\<close> and \<open>Relations\<close> as well.
\<close>

record csvFieldCounts =
  count_Emails :: int
  count_Phones :: int
  count_Addresses :: int
  count_Events :: int
  count_Relations :: int
  count_Websites :: int
  count_CustomFields :: int

fun countMaxFieldsLoop :: "csvFieldCounts \<Rightarrow> person list \<Rightarrow> csvFieldCounts" where
  "countMaxFieldsLoop counts [] = counts"
| "countMaxFieldsLoop counts (contact # rest) =
     (let c1 = (if int (length (EmailAddresses contact)) > count_Emails counts
                then counts\<lparr>count_Emails := int (length (EmailAddresses contact))\<rparr>
                else counts);
          c2 = (if int (length (PhoneNumbers contact)) > count_Phones c1
                then c1\<lparr>count_Phones := int (length (PhoneNumbers contact))\<rparr> else c1);
          c3 = (if int (length (Addresses contact)) > count_Addresses c2
                then c2\<lparr>count_Addresses := int (length (Addresses contact))\<rparr> else c2);
          c4 = (if int (length (Events contact)) > count_Events c3
                then c3\<lparr>count_Events := int (length (Events contact))\<rparr> else c3);
          c5 = (if int (length (Relations contact)) > count_Relations c4
                then c4\<lparr>count_Relations := int (length (Relations contact))\<rparr> else c4);
          c6 = (if int (length (Urls contact)) > count_Websites c5
                then c5\<lparr>count_Websites := int (length (Urls contact))\<rparr> else c5);
          c7 = (if int (length (UserDefined contact)) > count_CustomFields c6
                then c6\<lparr>count_CustomFields := int (length (UserDefined contact))\<rparr> else c6)
      in countMaxFieldsLoop c7 rest)"

definition countMaxFields :: "person list \<Rightarrow> csvFieldCounts" where
  "countMaxFields contacts =
     countMaxFieldsLoop
       \<lparr>count_Emails = 0, count_Phones = 0, count_Addresses = 0, count_Events = 0,
        count_Relations = 0, count_Websites = 0, count_CustomFields = 0\<rparr> contacts"

text \<open>
  The two shapes of counting loop of the export: \<^verbatim>\<open>for i := lo; i <= n; i++\<close> and
  \<^verbatim>\<open>for i := lo; i < n; i++\<close>, with the state that the body updates.
\<close>

function forUpTo :: "int \<Rightarrow> int \<Rightarrow> (int \<Rightarrow> 'a \<Rightarrow> 'a) \<Rightarrow> 'a \<Rightarrow> 'a" where
  "forUpTo i n body st = (if i \<le> n then forUpTo (i + 1) n body (body i st) else st)"
  by pat_completeness auto
termination
  by (relation "measure (\<lambda>(i, n, body, st). nat (n + 1 - i))") auto

function forBelow :: "int \<Rightarrow> int \<Rightarrow> (int \<Rightarrow> 'a \<Rightarrow> 'a) \<Rightarrow> 'a \<Rightarrow> 'a" where
  "forBelow i n body st = (if i < n then forBelow (i + 1) n body (body i st) else st)"
  by pat_completeness auto
termination
  by (relation "measure (\<lambda>(i, n, body, st). nat (n - i))") auto

text \<open>
  Formatting of integers: \<^verbatim>\<open>%d\<close>, and \<^verbatim>\<open>%0wd\<close>, which pads with zeros to the width \<open>w\<close>,
  the sign of a negative number counting as one column.
\<close>

fun digits :: "nat \<Rightarrow> string" where
  "digits n =
     (if n < 10 then [''0123456789'' ! n]
      else digits (n div 10) @ [''0123456789'' ! (n mod 10)])"

definition itoa :: "int \<Rightarrow> string" where
  "itoa i = (if i < 0 then ''-'' @ digits (nat (- i)) else digits (nat i))"

definition padded :: "nat \<Rightarrow> int \<Rightarrow> string" where
  "padded w i =
     (if i < 0
      then ''-'' @ replicate (w - 1 - length (digits (nat (- i)))) (CHR ''0'') @ digits (nat (- i))
      else replicate (w - length (digits (nat i))) (CHR ''0'') @ digits (nat i))"

text \<open>
  \<^verbatim>\<open>buildCSVHeaders\<close>.
\<close>

definition buildCSVHeaders :: "csvFieldCounts \<Rightarrow> string list" where
  "buildCSVHeaders counts =
     (let headers =
            [''Name Prefix'', ''First Name'', ''Middle Name'', ''Last Name'', ''Name Suffix'',
             ''Phonetic First Name'', ''Phonetic Middle Name'', ''Phonetic Last Name'',
             ''Nickname'', ''File As'', ''Birthday'', ''Organization Name'',
             ''Organization Title'', ''Organization Department''];
          headers = forUpTo 1 (count_Emails counts) (\<lambda>i headers. headers @
            [''Email '' @ itoa i @ '' - Label'', ''Email '' @ itoa i @ '' - Value'']) headers;
          headers = forUpTo 1 (count_Phones counts) (\<lambda>i headers. headers @
            [''Phone '' @ itoa i @ '' - Label'', ''Phone '' @ itoa i @ '' - Value'']) headers;
          headers = forUpTo 1 (count_Addresses counts) (\<lambda>i headers. headers @
            [''Address '' @ itoa i @ '' - Label'', ''Address '' @ itoa i @ '' - Street'',
             ''Address '' @ itoa i @ '' - Extended Address'',
             ''Address '' @ itoa i @ '' - City'', ''Address '' @ itoa i @ '' - Region'',
             ''Address '' @ itoa i @ '' - Postal Code'',
             ''Address '' @ itoa i @ '' - Country'', ''Address '' @ itoa i @ '' - PO Box''])
            headers;
          headers = forUpTo 1 (count_Events counts) (\<lambda>i headers. headers @
            [''Event '' @ itoa i @ '' - Label'', ''Event '' @ itoa i @ '' - Value'']) headers;
          headers = forUpTo 1 (count_Relations counts) (\<lambda>i headers. headers @
            [''Relation '' @ itoa i @ '' - Label'', ''Relation '' @ itoa i @ '' - Value''])
            headers;
          headers = forUpTo 1 (count_Websites counts) (\<lambda>i headers. headers @
            [''Website '' @ itoa i @ '' - Label'', ''Website '' @ itoa i @ '' - Value''])
            headers;
          headers = forUpTo 1 (count_CustomFields counts) (\<lambda>i headers. headers @
            [''Custom Field '' @ itoa i @ '' - Label'',
             ''Custom Field '' @ itoa i @ '' - Value'']) headers
      in headers @ [''Notes'', ''Labels''])"

text \<open>
  \<^verbatim>\<open>normalizeLabel\<close>. \<^verbatim>\<open>strings.ToLower\<close> and \<^verbatim>\<open>strings.ToUpper\<close> are parameters: what
  they do to letters outside ASCII is the library's matter, and no property below
  depends on it. \<^verbatim>\<open>label[:1]\<close> and \<^verbatim>\<open>label[1:]\<close> cut after the first byte.
\<close>

definition TrimPrefix :: "string \<Rightarrow> string \<Rightarrow> string" where
  "TrimPrefix s pre = (if HasPrefix s pre then drop (length pre) s else s)"

definition normalizeLabel :: "(string \<Rightarrow> string) \<Rightarrow> (string \<Rightarrow> string) \<Rightarrow> string \<Rightarrow> string" where
  "normalizeLabel ToLower ToUpper label =
     (if label = '''' then ''''
      else
        (let label = TrimPrefix label ''TYPE_'';
             label = ToLower label;
             label = (if length label > 0 then ToUpper (take 1 label) @ drop 1 label else label);
             key = ToLower label
         in if key = ''home'' then ''Home''
            else if key = ''work'' then ''Work''
            else if key = ''mobile'' then ''Mobile''
            else if key = ''main'' then ''Main''
            else if key = ''other'' then ''Other''
            else if key = ''homefax'' then ''Home Fax''
            else if key = ''workfax'' then ''Work Fax''
            else if key = ''pager'' then ''Pager''
            else label))"

text \<open>
  \<^verbatim>\<open>extractLabels\<close>, with the accumulator \<open>labels\<close>, and \<^verbatim>\<open>strings.Join\<close>.
\<close>

fun extractLabelsLoop :: "(string \<rightharpoonup> string) \<Rightarrow> string list \<Rightarrow> membership list \<Rightarrow> string list" where
  "extractLabelsLoop groupNameMap labels [] = labels"
| "extractLabelsLoop groupNameMap labels (membership # rest) =
     (case ContactGroupMembership membership of
        None \<Rightarrow> extractLabelsLoop groupNameMap labels rest
      | Some cgm \<Rightarrow>
          (let resourceName = ContactGroupResourceName cgm in
           if isSystemGroup resourceName then extractLabelsLoop groupNameMap labels rest
           else
             (case groupNameMap resourceName of
                Some n \<Rightarrow> extractLabelsLoop groupNameMap (labels @ [n]) rest
              | None \<Rightarrow> extractLabelsLoop groupNameMap labels rest)))"

definition extractLabels :: "person \<Rightarrow> (string \<rightharpoonup> string) \<Rightarrow> string list" where
  "extractLabels contact groupNameMap = extractLabelsLoop groupNameMap [] (Memberships contact)"

fun Join :: "string list \<Rightarrow> string \<Rightarrow> string" where
  "Join [] sep = ''''"
| "Join [x] sep = x"
| "Join (x # y # rest) sep = x @ sep @ Join (y # rest) sep"

definition labelSeparator :: string where
  "labelSeparator = '' ::: ''"

text \<open>
  The date of a birthday or of an event, as both places of \<^verbatim>\<open>contactToCSVRow\<close> print it.
\<close>

definition formatDate :: "date option \<Rightarrow> string" where
  "formatDate d =
     (case d of
        None \<Rightarrow> ''''
      | Some dt \<Rightarrow>
          if Year dt > 0
          then padded 4 (Year dt) @ ''-'' @ padded 2 (Month dt) @ ''-'' @ padded 2 (Day dt)
          else ''--'' @ padded 2 (Month dt) @ ''-'' @ padded 2 (Day dt))"

text \<open>
  \<^verbatim>\<open>contactToCSVRow\<close>. An index \<open>i\<close> is read only under the test \<open>i < len\<close>, and the loops
  start at \<open>0\<close>, so every read \<open>xs ! nat i\<close> is in range.
\<close>

definition contactToCSVRow ::
  "(string \<Rightarrow> string) \<Rightarrow> (string \<Rightarrow> string) \<Rightarrow> person \<Rightarrow> csvFieldCounts
     \<Rightarrow> (string \<rightharpoonup> string) \<Rightarrow> string list" where
  "contactToCSVRow ToLower ToUpper contact counts groupNameMap =
     (let row = [];
          (namePrefix, firstName, middleName, lastName, nameSuffix,
           phoneticFirst, phoneticMiddle, phoneticLast) =
            (case Names contact of
               [] \<Rightarrow> ('''', '''', '''', '''', '''', '''', '''', '''')
             | name # _ \<Rightarrow>
                 (HonorificPrefix name, GivenName name, MiddleName name, FamilyName name,
                  HonorificSuffix name, PhoneticGivenName name, PhoneticMiddleName name,
                  PhoneticFamilyName name));
          nickname = (case Nicknames contact of [] \<Rightarrow> '''' | n # _ \<Rightarrow> nickname_Value n);
          fileAs = (case FileAses contact of [] \<Rightarrow> '''' | f # _ \<Rightarrow> file_as_Value f);
          birthday =
            (case Birthdays contact of [] \<Rightarrow> '''' | bday # _ \<Rightarrow> formatDate (birthday_Date bday));
          (orgName, orgTitle, orgDepartment) =
            (case Organizations contact of
               [] \<Rightarrow> ('''', '''', '''')
             | org # _ \<Rightarrow> (org_Name org, Title org, Department org));
          row = row @
            [namePrefix, firstName, middleName, lastName, nameSuffix, phoneticFirst,
             phoneticMiddle, phoneticLast, nickname, fileAs, birthday, orgName, orgTitle,
             orgDepartment];
          row = forBelow 0 (count_Emails counts) (\<lambda>i row.
            if i < int (length (EmailAddresses contact))
            then (let email = EmailAddresses contact ! nat i
                  in row @ [normalizeLabel ToLower ToUpper (email_Type email), email_Value email])
            else row @ ['''', '''']) row;
          row = forBelow 0 (count_Phones counts) (\<lambda>i row.
            if i < int (length (PhoneNumbers contact))
            then (let phone = PhoneNumbers contact ! nat i
                  in row @ [normalizeLabel ToLower ToUpper (phone_Type phone), phone_Value phone])
            else row @ ['''', '''']) row;
          row = forBelow 0 (count_Addresses counts) (\<lambda>i row.
            if i < int (length (Addresses contact))
            then (let addr = Addresses contact ! nat i
                  in row @ [normalizeLabel ToLower ToUpper (address_Type addr),
                            StreetAddress addr, ExtendedAddress addr, City addr, Region addr,
                            PostalCode addr, Country addr, PoBox addr])
            else row @ ['''', '''', '''', '''', '''', '''', '''', '''']) row;
          row = forBelow 0 (count_Events counts) (\<lambda>i row.
            if i < int (length (Events contact))
            then (let event = Events contact ! nat i;
                      eventDate = formatDate (event_Date event)
                  in row @ [normalizeLabel ToLower ToUpper (event_Type event), eventDate])
            else row @ ['''', '''']) row;
          row = forBelow 0 (count_Relations counts) (\<lambda>i row.
            if i < int (length (Relations contact))
            then (let rel = Relations contact ! nat i
                  in row @ [normalizeLabel ToLower ToUpper (relation_Type rel), Person rel])
            else row @ ['''', '''']) row;
          row = forBelow 0 (count_Websites counts) (\<lambda>i row.
            if i < int (length (Urls contact))
            then (let url = Urls contact ! nat i
                  in row @ [normalizeLabel ToLower ToUpper (url_Type url), url_Value url])
            else row @ ['''', '''']) row;
          row = forBelow 0 (count_CustomFields counts) (\<lambda>i row.
            if i < int (length (UserDefined contact))
            then (let ud = UserDefined contact ! nat i
                  in row @ [Key ud, user_defined_Value ud])
            else row @ ['''', '''']) row;
          notes = (case Biographies contact of [] \<Rightarrow> '''' | bio # _ \<Rightarrow> biography_Value bio);
          row = row @ [notes];
          labels = extractLabels contact groupNameMap;
          row = row @ [Join labels labelSeparator]
      in row)"

text \<open>
  \<^verbatim>\<open>SaveToCSV\<close>. The lookup map of the names of the user groups, the counts with their
  minimum of one for emails and phones, then the file: \<open>osCreate\<close> is \<^verbatim>\<open>os.Create\<close> and
  \<open>csvWrite\<close> is \<^verbatim>\<open>writer.Write\<close>, which may fail depending on the records written before;
  the result is the error, if any, and the records written.
\<close>

fun groupNameMapLoop :: "(string \<rightharpoonup> string) \<Rightarrow> contact_group list \<Rightarrow> (string \<rightharpoonup> string)" where
  "groupNameMapLoop groupNameMap [] = groupNameMap"
| "groupNameMapLoop groupNameMap (grp # rest) =
     (if GroupType grp = ''USER_CONTACT_GROUP''
      then groupNameMapLoop (groupNameMap(group_ResourceName grp \<mapsto> group_Name grp)) rest
      else groupNameMapLoop groupNameMap rest)"

definition csvCounts :: "backup_file \<Rightarrow> csvFieldCounts" where
  "csvCounts b =
     (let counts = countMaxFields (Contacts b);
          counts = (if count_Emails counts = 0 then counts\<lparr>count_Emails := 1\<rparr> else counts);
          counts = (if count_Phones counts = 0 then counts\<lparr>count_Phones := 1\<rparr> else counts)
      in counts)"

fun writeRows ::
  "(string list list \<Rightarrow> string list \<Rightarrow> error option) \<Rightarrow> (string \<Rightarrow> string) \<Rightarrow> (string \<Rightarrow> string)
     \<Rightarrow> csvFieldCounts \<Rightarrow> (string \<rightharpoonup> string) \<Rightarrow> string list list \<Rightarrow> person list
     \<Rightarrow> error option \<times> string list list" where
  "writeRows csvWrite ToLower ToUpper counts groupNameMap written [] = (None, written)"
| "writeRows csvWrite ToLower ToUpper counts groupNameMap written (contact # rest) =
     (let row = contactToCSVRow ToLower ToUpper contact counts groupNameMap
      in case csvWrite written row of
           Some err \<Rightarrow> (Some (Wrap ''failed to write CSV row'' err), written)
         | None \<Rightarrow>
             writeRows csvWrite ToLower ToUpper counts groupNameMap (written @ [row]) rest)"

definition SaveToCSV ::
  "(string \<Rightarrow> error option) \<Rightarrow> (string list list \<Rightarrow> string list \<Rightarrow> error option)
     \<Rightarrow> (string \<Rightarrow> string) \<Rightarrow> (string \<Rightarrow> string) \<Rightarrow> backup_file \<Rightarrow> string
     \<Rightarrow> error option \<times> string list list" where
  "SaveToCSV osCreate csvWrite ToLower ToUpper b path =
     (let groupNameMap = groupNameMapLoop Map.empty (Groups b);
          counts = csvCounts b;
          headers = buildCSVHeaders counts
      in case osCreate path of
           Some err \<Rightarrow> (Some (Wrap ''failed to create CSV file'' err), [])
         | None \<Rightarrow>
             (case csvWrite [] headers of
                Some err \<Rightarrow> (Some (Wrap ''failed to write CSV header'' err), [])
              | None \<Rightarrow>
                  writeRows csvWrite ToLower ToUpper counts groupNameMap [headers]
                    (Contacts b)))"

text \<open>
  The maximum occurrence count of a field group over a record set; \<open>0\<close> for the empty set.
\<close>

definition maxCount :: "(person \<Rightarrow> 'a list) \<Rightarrow> person list \<Rightarrow> nat" where
  "maxCount grp contacts = Max (insert 0 ((\<lambda>contact. length (grp contact)) ` set contacts))"

text \<open>
  Sample data for the export: the case mappings on ASCII letters, a file system that
  never fails, and an archive of two records, the first with two emails and a user
  group, the second with no email.
\<close>

definition asciiLower :: "string \<Rightarrow> string" where
  "asciiLower =
     map (\<lambda>c. case map_of (zip ''ABCDEFGHIJKLMNOPQRSTUVWXYZ'' ''abcdefghijklmnopqrstuvwxyz'') c of
                 Some d \<Rightarrow> d | None \<Rightarrow> c)"

definition asciiUpper :: "string \<Rightarrow> string" where
  "asciiUpper =
     map (\<lambda>c. case map_of (zip ''abcdefghijklmnopqrstuvwxyz'' ''ABCDEFGHIJKLMNOPQRSTUVWXYZ'') c of
                 Some d \<Rightarrow> d | None \<Rightarrow> c)"

definition csvContact1 :: person where
  "csvContact1 = emptyPerson
     \<lparr>ResourceName := ''people/c1'',
      Names := [\<lparr>Metadata = None, HonorificPrefix = '''', GivenName = ''Ada'',
                 MiddleName = '''', FamilyName = ''Lovelace'', HonorificSuffix = '''',
                 PhoneticGivenName = '''', PhoneticMiddleName = '''',
                 PhoneticFamilyName = ''''\<rparr>],
      EmailAddresses :=
        [\<lparr>Metadata = None, email_Type = ''home'', email_Value = ''ada@example.org''\<rparr>,
         \<lparr>Metadata = None, email_Type = ''TYPE_WORK'', email_Value = ''ada@work.example''\<rparr>],
      Memberships :=
        [membershipOf ''contactGroups/myContacts'', membershipOf ''contactGroups/3c1f'']\<rparr>"

definition csvContact2 :: person where
  "csvContact2 = emptyPerson
     \<lparr>ResourceName := ''people/c2'',
      Names := [\<lparr>Metadata = None, HonorificPrefix = '''', GivenName = ''Charles'',
                 MiddleName = '''', FamilyName = ''Babbage'', HonorificSuffix = '''',
                 PhoneticGivenName = '''', PhoneticMiddleName = '''',
                 PhoneticFamilyName = ''''\<rparr>]\<rparr>"

definition csvBackup :: backup_file where
  "csvBackup =
     \<lparr>Version = ''1.0'', CreatedAt = 1700000000, ContactCount = 2, GroupCount = 2,
      Contacts = [csvContact1, csvContact2],
      Groups = [systemGroup ''contactGroups/myContacts'' ''myContacts'',
                userGroup ''contactGroups/3c1f'' ''Team'']\<rparr>"

section \<open>Properties of the record sanitizer\<close>

text \<open>
  The fields of the sanitized person, read off the definition once, so that later proofs
  work on the single slices.
\<close>

lemma clean_Memberships:
  "Memberships (cleanContactForCreation c gm) =
     (if Memberships c = [] then [] else rewriteMemberships gm [] (Memberships c))"
  by (simp add: cleanContactForCreation_def clearFieldMetadata_def Let_def)

lemma clean_fields:
  "ResourceName (cleanContactForCreation c gm) = ''''"
  "person_Metadata (cleanContactForCreation c gm) = None"
  "Names (cleanContactForCreation c gm) = map (\<lambda>e. e\<lparr>Metadata := None\<rparr>) (Names c)"
  "Nicknames (cleanContactForCreation c gm) = map (\<lambda>e. e\<lparr>Metadata := None\<rparr>) (Nicknames c)"
  "EmailAddresses (cleanContactForCreation c gm) = map (\<lambda>e. e\<lparr>Metadata := None\<rparr>) (EmailAddresses c)"
  "PhoneNumbers (cleanContactForCreation c gm) = map (\<lambda>e. e\<lparr>Metadata := None\<rparr>) (PhoneNumbers c)"
  "Addresses (cleanContactForCreation c gm) = map (\<lambda>e. e\<lparr>Metadata := None\<rparr>) (Addresses c)"
  "Organizations (cleanContactForCreation c gm) = map (\<lambda>e. e\<lparr>Metadata := None\<rparr>) (Organizations c)"
  "Birthdays (cleanContactForCreation c gm) = map (\<lambda>e. e\<lparr>Metadata := None\<rparr>) (Birthdays c)"
  "Biographies (cleanContactForCreation c gm) = map (\<lambda>e. e\<lparr>Metadata := None\<rparr>) (Biographies c)"
  "Urls (cleanContactForCreation c gm) = map (\<lambda>e. e\<lparr>Metadata := None\<rparr>) (Urls c)"
  "UserDefined (cleanContactForCreation c gm) = map (\<lambda>e. e\<lparr>Metadata := None\<rparr>) (UserDefined c)"
  "Events (cleanContactForCreation c gm) = map (\<lambda>e. e\<lparr>Metadata := None\<rparr>) (Events c)"
  "Relations (cleanContactForCreation c gm) = map (\<lambda>e. e\<lparr>Metadata := None\<rparr>) (Relations c)"
  "Occupations (cleanContactForCreation c gm) = map (\<lambda>e. e\<lparr>Metadata := None\<rparr>) (Occupations c)"
  "Genders (cleanContactForCreation c gm) = map (\<lambda>e. e\<lparr>Metadata := None\<rparr>) (Genders c)"
  "ImClients (cleanContactForCreation c gm) = map (\<lambda>e. e\<lparr>Metadata := None\<rparr>) (ImClients c)"
  "Interests (cleanContactForCreation c gm) = map (\<lambda>e. e\<lparr>Metadata := None\<rparr>) (Interests c)"
  "SipAddresses (cleanContactForCreation c gm) = map (\<lambda>e. e\<lparr>Metadata := None\<rparr>) (SipAddresses c)"
  "CalendarUrls (cleanContactForCreation c gm) = map (\<lambda>e. e\<lparr>Metadata := None\<rparr>) (CalendarUrls c)"
  "ExternalIds (cleanContactForCreation c gm) = map (\<lambda>e. e\<lparr>Metadata := None\<rparr>) (ExternalIds c)"
  "Locales (cleanContactForCreation c gm) = map (\<lambda>e. e\<lparr>Metadata := None\<rparr>) (Locales c)"
  "Locations (cleanContactForCreation c gm) = map (\<lambda>e. e\<lparr>Metadata := None\<rparr>) (Locations c)"
  "MiscKeywords (cleanContactForCreation c gm) = map (\<lambda>e. e\<lparr>Metadata := None\<rparr>) (MiscKeywords c)"
  "ClientData (cleanContactForCreation c gm) = map (\<lambda>e. e\<lparr>Metadata := None\<rparr>) (ClientData c)"
  "FileAses (cleanContactForCreation c gm) = []"
  "Photos (cleanContactForCreation c gm) = []"
  "Etag (cleanContactForCreation c gm) = ''''"
  by (simp_all add: cleanContactForCreation_def clearFieldMetadata_def Let_def)

lemma rewriteMemberships_acc:
  "rewriteMemberships gm acc ms = acc @ rewriteMemberships gm [] ms"
proof (induction ms arbitrary: acc)
  case Nil
  then show ?case by simp
next
  case (Cons m ms)
  show ?case
    using Cons.IH[of "acc @ [m]"] Cons.IH[of "[m]"] Cons.IH[of acc]
      Cons.IH[of "acc @ [newMembership x]" for x] Cons.IH[of "[newMembership x]" for x]
    by (simp split: option.splits add: Let_def)
qed

lemma rewriteMemberships_Cons:
  "rewriteMemberships gm [] (m # ms) =
     (case ContactGroupMembership m of
        None \<Rightarrow> []
      | Some cgm \<Rightarrow>
          if ContactGroupResourceName cgm = ''contactGroups/myContacts'' then [m]
          else if HasPrefix (ContactGroupResourceName cgm) ''contactGroups/'' \<and>
                  \<not> HasPrefix (ContactGroupResourceName cgm) ''contactGroups/myContacts'' \<and>
                  \<not> HasPrefix (ContactGroupResourceName cgm) ''contactGroups/starred'' \<and>
                  \<not> HasPrefix (ContactGroupResourceName cgm) ''contactGroups/chatBuddies'' \<and>
                  \<not> HasPrefix (ContactGroupResourceName cgm) ''contactGroups/all'' \<and>
                  \<not> HasPrefix (ContactGroupResourceName cgm) ''contactGroups/friends'' \<and>
                  \<not> HasPrefix (ContactGroupResourceName cgm) ''contactGroups/family'' \<and>
                  \<not> HasPrefix (ContactGroupResourceName cgm) ''contactGroups/coworkers''
          then (case gm (ContactGroupResourceName cgm) of
                  Some newResourceName \<Rightarrow> [newMembership newResourceName]
                | None \<Rightarrow> [])
          else [])
     @ rewriteMemberships gm [] ms"
proof -
  have my: "HasPrefix ''contactGroups/myContacts'' ''contactGroups/myContacts''"
    by (simp add: HasPrefix_def)
  show ?thesis
    using rewriteMemberships_acc[of gm "[m]" ms]
      rewriteMemberships_acc[of gm "[newMembership x]" ms for x] my
    by (auto split: option.splits simp: Let_def)
qed

lemma rewriteMemberships_concat:
  "rewriteMemberships gm [] ms =
     concat (map (\<lambda>m.
       case ContactGroupMembership m of
        None \<Rightarrow> []
      | Some cgm \<Rightarrow>
          if ContactGroupResourceName cgm = ''contactGroups/myContacts'' then [m]
          else if HasPrefix (ContactGroupResourceName cgm) ''contactGroups/'' \<and>
                  \<not> HasPrefix (ContactGroupResourceName cgm) ''contactGroups/myContacts'' \<and>
                  \<not> HasPrefix (ContactGroupResourceName cgm) ''contactGroups/starred'' \<and>
                  \<not> HasPrefix (ContactGroupResourceName cgm) ''contactGroups/chatBuddies'' \<and>
                  \<not> HasPrefix (ContactGroupResourceName cgm) ''contactGroups/all'' \<and>
                  \<not> HasPrefix (ContactGroupResourceName cgm) ''contactGroups/friends'' \<and>
                  \<not> HasPrefix (ContactGroupResourceName cgm) ''contactGroups/family'' \<and>
                  \<not> HasPrefix (ContactGroupResourceName cgm) ''contactGroups/coworkers''
          then (case gm (ContactGroupResourceName cgm) of
                  Some newResourceName \<Rightarrow> [newMembership newResourceName]
                | None \<Rightarrow> [])
          else []) ms)"
proof (induction ms)
  case Nil
  show ?case by simp
next
  case (Cons m ms)
  show ?case
    by (simp only: rewriteMemberships_Cons[of gm m ms] Cons.IH list.map concat.simps)
qed

lemma rewriteMemberships_origin:
  assumes "m \<in> set (rewriteMemberships gm [] ms)"
  shows "(m \<in> set ms \<and>
          (\<exists>cgm. ContactGroupMembership m = Some cgm \<and>
                 ContactGroupResourceName cgm = ''contactGroups/myContacts'')) \<or>
         (Metadata m = None \<and>
          (\<exists>m0 cgm new. m0 \<in> set ms \<and> ContactGroupMembership m0 = Some cgm \<and>
             gm (ContactGroupResourceName cgm) = Some new \<and> m = newMembership new))"
proof -
  let ?handle = "\<lambda>m0. case ContactGroupMembership m0 of
        None \<Rightarrow> []
      | Some cgm \<Rightarrow>
          if ContactGroupResourceName cgm = ''contactGroups/myContacts'' then [m0]
          else if HasPrefix (ContactGroupResourceName cgm) ''contactGroups/'' \<and>
                  \<not> HasPrefix (ContactGroupResourceName cgm) ''contactGroups/myContacts'' \<and>
                  \<not> HasPrefix (ContactGroupResourceName cgm) ''contactGroups/starred'' \<and>
                  \<not> HasPrefix (ContactGroupResourceName cgm) ''contactGroups/chatBuddies'' \<and>
                  \<not> HasPrefix (ContactGroupResourceName cgm) ''contactGroups/all'' \<and>
                  \<not> HasPrefix (ContactGroupResourceName cgm) ''contactGroups/friends'' \<and>
                  \<not> HasPrefix (ContactGroupResourceName cgm) ''contactGroups/family'' \<and>
                  \<not> HasPrefix (ContactGroupResourceName cgm) ''contactGroups/coworkers''
          then (case gm (ContactGroupResourceName cgm) of
                  Some newResourceName \<Rightarrow> [newMembership newResourceName]
                | None \<Rightarrow> [])
          else []"
  have "rewriteMemberships gm [] ms = concat (map ?handle ms)"
    by (rule rewriteMemberships_concat)
  then have "set (rewriteMemberships gm [] ms) = set (concat (map ?handle ms))"
    by (rule arg_cong)
  with assms have "m \<in> set (concat (map ?handle ms))"
    by (rule subst[where P = "\<lambda>S. m \<in> S", rotated])
  then have "\<exists>m0 \<in> set ms. m \<in> set (?handle m0)"
    by (simp only: set_concat set_map UN_iff bex_simps image_iff) 
  then obtain m0 where m0: "m0 \<in> set ms" and m: "m \<in> set (?handle m0)"
    by (rule bexE)
  show ?thesis
  proof (cases "ContactGroupMembership m0")
    case None
    with m show ?thesis by simp
  next
    case (Some cgm)
    show ?thesis
    proof (cases "ContactGroupResourceName cgm = ''contactGroups/myContacts''")
      case True
      with m Some have "m = m0" by simp
      with m0 Some True show ?thesis by simp
    next
      case False
      let ?user = "HasPrefix (ContactGroupResourceName cgm) ''contactGroups/'' \<and>
                  \<not> HasPrefix (ContactGroupResourceName cgm) ''contactGroups/myContacts'' \<and>
                  \<not> HasPrefix (ContactGroupResourceName cgm) ''contactGroups/starred'' \<and>
                  \<not> HasPrefix (ContactGroupResourceName cgm) ''contactGroups/chatBuddies'' \<and>
                  \<not> HasPrefix (ContactGroupResourceName cgm) ''contactGroups/all'' \<and>
                  \<not> HasPrefix (ContactGroupResourceName cgm) ''contactGroups/friends'' \<and>
                  \<not> HasPrefix (ContactGroupResourceName cgm) ''contactGroups/family'' \<and>
                  \<not> HasPrefix (ContactGroupResourceName cgm) ''contactGroups/coworkers''"
      show ?thesis
      proof (cases ?user)
        case user: True
        show ?thesis
        proof (cases "gm (ContactGroupResourceName cgm)")
          case None
          with m Some False user show ?thesis by simp
        next
          case new: (Some new)
          with m Some False user have eq: "m = newMembership new" by simp
          have "Metadata m = None" by (simp add: eq newMembership_def)
          with m0 Some new eq show ?thesis by blast
        qed
      next
        case nouser: False
        with m Some False show ?thesis by simp
      qed
    qed
  qed
qed

text \<open>
  What the sanitizer does on every contact and every remap table: the person returned by
  \<^verbatim>\<open>cleanContactForCreation\<close> has an empty resource name; no element of the twenty-three
  slices it takes from the contact carries a metadata stamp; it has no file-as entries
  and no photos; and each of its memberships is either a membership of the contact that
  refers to \<^verbatim>\<open>contactGroups/myContacts\<close>, the very object of the input, or a new membership
  without stamp whose group is the image under the remap table of a group the contact
  belongs to.
\<close>

theorem sanitize_output:
  "ResourceName (cleanContactForCreation c gm) = '''' \<and>
   (\<forall>e \<in> set (Names (cleanContactForCreation c gm)). Metadata e = None) \<and>
   (\<forall>e \<in> set (Nicknames (cleanContactForCreation c gm)). Metadata e = None) \<and>
   (\<forall>e \<in> set (EmailAddresses (cleanContactForCreation c gm)). Metadata e = None) \<and>
   (\<forall>e \<in> set (PhoneNumbers (cleanContactForCreation c gm)). Metadata e = None) \<and>
   (\<forall>e \<in> set (Addresses (cleanContactForCreation c gm)). Metadata e = None) \<and>
   (\<forall>e \<in> set (Organizations (cleanContactForCreation c gm)). Metadata e = None) \<and>
   (\<forall>e \<in> set (Birthdays (cleanContactForCreation c gm)). Metadata e = None) \<and>
   (\<forall>e \<in> set (Biographies (cleanContactForCreation c gm)). Metadata e = None) \<and>
   (\<forall>e \<in> set (Urls (cleanContactForCreation c gm)). Metadata e = None) \<and>
   (\<forall>e \<in> set (UserDefined (cleanContactForCreation c gm)). Metadata e = None) \<and>
   (\<forall>e \<in> set (Events (cleanContactForCreation c gm)). Metadata e = None) \<and>
   (\<forall>e \<in> set (Relations (cleanContactForCreation c gm)). Metadata e = None) \<and>
   (\<forall>e \<in> set (Occupations (cleanContactForCreation c gm)). Metadata e = None) \<and>
   (\<forall>e \<in> set (Genders (cleanContactForCreation c gm)). Metadata e = None) \<and>
   (\<forall>e \<in> set (ImClients (cleanContactForCreation c gm)). Metadata e = None) \<and>
   (\<forall>e \<in> set (Interests (cleanContactForCreation c gm)). Metadata e = None) \<and>
   (\<forall>e \<in> set (SipAddresses (cleanContactForCreation c gm)). Metadata e = None) \<and>
   (\<forall>e \<in> set (CalendarUrls (cleanContactForCreation c gm)). Metadata e = None) \<and>
   (\<forall>e \<in> set (ExternalIds (cleanContactForCreation c gm)). Metadata e = None) \<and>
   (\<forall>e \<in> set (Locales (cleanContactForCreation c gm)). Metadata e = None) \<and>
   (\<forall>e \<in> set (Locations (cleanContactForCreation c gm)). Metadata e = None) \<and>
   (\<forall>e \<in> set (MiscKeywords (cleanContactForCreation c gm)). Metadata e = None) \<and>
   (\<forall>e \<in> set (ClientData (cleanContactForCreation c gm)). Metadata e = None) \<and>
   FileAses (cleanContactForCreation c gm) = [] \<and>
   Photos (cleanContactForCreation c gm) = [] \<and>
   (\<forall>m \<in> set (Memberships (cleanContactForCreation c gm)).
      (m \<in> set (Memberships c) \<and>
       (\<exists>cgm. ContactGroupMembership m = Some cgm \<and>
              ContactGroupResourceName cgm = ''contactGroups/myContacts'')) \<or>
      (Metadata m = None \<and>
       (\<exists>m0 cgm new. m0 \<in> set (Memberships c) \<and> ContactGroupMembership m0 = Some cgm \<and>
          gm (ContactGroupResourceName cgm) = Some new \<and> m = newMembership new)))"
proof -
  have mem: "\<forall>m \<in> set (Memberships (cleanContactForCreation c gm)).
      (m \<in> set (Memberships c) \<and>
       (\<exists>cgm. ContactGroupMembership m = Some cgm \<and>
              ContactGroupResourceName cgm = ''contactGroups/myContacts'')) \<or>
      (Metadata m = None \<and>
       (\<exists>m0 cgm new. m0 \<in> set (Memberships c) \<and> ContactGroupMembership m0 = Some cgm \<and>
          gm (ContactGroupResourceName cgm) = Some new \<and> m = newMembership new))"
  proof
    fix m
    assume "m \<in> set (Memberships (cleanContactForCreation c gm))"
    then have "m \<in> set (rewriteMemberships gm [] (Memberships c))"
      by (simp add: clean_Memberships split: if_splits)
    then show "(m \<in> set (Memberships c) \<and>
       (\<exists>cgm. ContactGroupMembership m = Some cgm \<and>
              ContactGroupResourceName cgm = ''contactGroups/myContacts'')) \<or>
      (Metadata m = None \<and>
       (\<exists>m0 cgm new. m0 \<in> set (Memberships c) \<and> ContactGroupMembership m0 = Some cgm \<and>
          gm (ContactGroupResourceName cgm) = Some new \<and> m = newMembership new))"
      by (rule rewriteMemberships_origin)
  qed
  show ?thesis
    using mem by (simp add: clean_fields)
qed

text \<open>
  Claim C1 says that no entry of any field group of the sanitized record carries
  metadata. The code misses it for the membership of \<^verbatim>\<open>contactGroups/myContacts\<close>: the
  membership is appended as the object it was, \<^verbatim>\<open>clearFieldMetadata\<close> ("removes
  server-assigned metadata from all fields") has a loop for each of the twenty-three other
  slices and none for the memberships, and so the stamp that the service assigned is
  still there after the sanitizer, while a remapped membership is built without one.
\<close>

theorem stamped_membership_kept:
  "Memberships (cleanContactForCreation stampedContact Map.empty) =
     [\<lparr>Metadata = Some stamp,
       ContactGroupMembership =
         Some \<lparr>ContactGroupId = ''myContacts'',
               ContactGroupResourceName = ''contactGroups/myContacts''\<rparr>,
       DomainMembership = None\<rparr>]"
  by (simp add: clean_Memberships stampedContact_def membershipOf_def HasPrefix_def)

text \<open>
  Claim C2 says that a reference to a user-defined category is rewritten through the
  remap table when the table has a mapping for it. The code misses it: the group
  \<^verbatim>\<open>contactGroups/allies\<close> is none of the system groups of \<^verbatim>\<open>isSystemGroup\<close> and the remap
  table has an entry for it, yet the membership is dropped, because the sanitizer tests
  for a system group ("Check if it's a system group") with \<^verbatim>\<open>strings.HasPrefix\<close> and the
  name starts with \<^verbatim>\<open>contactGroups/all\<close>.
\<close>

theorem allies_dropped:
  "\<not> isSystemGroup ''contactGroups/allies'' \<and>
   alliesMap ''contactGroups/allies'' = Some ''contactGroups/51e0'' \<and>
   Memberships alliesContact = [membershipOf ''contactGroups/allies''] \<and>
   Memberships (cleanContactForCreation alliesContact alliesMap) = []"
  by (simp add: clean_Memberships alliesContact_def alliesMap_def membershipOf_def
      HasPrefix_def isSystemGroup_def systemGroups_def)

text \<open>
  The loop over the memberships as the code runs it. For every contact and every remap
  table, the memberships of the sanitized person are obtained from those of the contact,
  in order, by this case analysis on the resource name of the group: a membership of exactly
  \<^verbatim>\<open>contactGroups/myContacts\<close> is copied as it is; a name that starts with
  \<^verbatim>\<open>contactGroups/\<close> and with none of the seven names \<^verbatim>\<open>contactGroups/myContacts\<close>,
  \<^verbatim>\<open>starred\<close>, \<^verbatim>\<open>chatBuddies\<close>, \<^verbatim>\<open>all\<close>, \<^verbatim>\<open>friends\<close>, \<^verbatim>\<open>family\<close>, \<^verbatim>\<open>coworkers\<close> is replaced
  by its image under the remap table when it has one and dropped when it has none; every
  other membership, also one without contact group, is dropped.
\<close>

theorem membership_case_analysis:
  "Memberships (cleanContactForCreation c gm) =
     concat (map (\<lambda>m.
       case ContactGroupMembership m of
        None \<Rightarrow> []
      | Some cgm \<Rightarrow>
          if ContactGroupResourceName cgm = ''contactGroups/myContacts'' then [m]
          else if HasPrefix (ContactGroupResourceName cgm) ''contactGroups/'' \<and>
                  \<not> HasPrefix (ContactGroupResourceName cgm) ''contactGroups/myContacts'' \<and>
                  \<not> HasPrefix (ContactGroupResourceName cgm) ''contactGroups/starred'' \<and>
                  \<not> HasPrefix (ContactGroupResourceName cgm) ''contactGroups/chatBuddies'' \<and>
                  \<not> HasPrefix (ContactGroupResourceName cgm) ''contactGroups/all'' \<and>
                  \<not> HasPrefix (ContactGroupResourceName cgm) ''contactGroups/friends'' \<and>
                  \<not> HasPrefix (ContactGroupResourceName cgm) ''contactGroups/family'' \<and>
                  \<not> HasPrefix (ContactGroupResourceName cgm) ''contactGroups/coworkers''
          then (case gm (ContactGroupResourceName cgm) of
                  Some newResourceName \<Rightarrow> [newMembership newResourceName]
                | None \<Rightarrow> [])
          else []) (Memberships c))"
proof (cases "Memberships c = []")
  case True
  then show ?thesis by (simp add: clean_Memberships)
next
  case False
  then show ?thesis
    by (simp only: clean_Memberships if_False rewriteMemberships_concat)
qed

text \<open>
  The case analysis on the sample contact: the membership of \<^verbatim>\<open>myContacts\<close> is kept, the
  user group \<^verbatim>\<open>3c1f\<close> is remapped, \<^verbatim>\<open>starred\<close> and the unmapped user group \<^verbatim>\<open>77aa\<close> are
  dropped.
\<close>

theorem membership_case_analysis_witness:
  "Memberships (cleanContactForCreation sampleContact sampleMap) =
     [membershipOf ''contactGroups/myContacts'', newMembership ''contactGroups/9d20'']"
  using membership_case_analysis[of sampleContact sampleMap]
  by (simp add: sampleContact_def sampleMap_def membershipOf_def HasPrefix_def)


text \<open>
  The sample contact has an entry with a stamp in every field group; after the sanitizer
  every stamp of the twenty-three slices is gone, and the two memberships that remain are
  the kept one, with its stamp, and the remapped one, without.
\<close>

theorem sanitize_output_witness:
  "ResourceName (cleanContactForCreation sampleContact sampleMap) = '''' \<and>
   map Metadata (Names (cleanContactForCreation sampleContact sampleMap)) = [None] \<and>
   map Metadata (Nicknames (cleanContactForCreation sampleContact sampleMap)) = [None] \<and>
   map Metadata (EmailAddresses (cleanContactForCreation sampleContact sampleMap)) = [None] \<and>
   map Metadata (PhoneNumbers (cleanContactForCreation sampleContact sampleMap)) = [None] \<and>
   map Metadata (Addresses (cleanContactForCreation sampleContact sampleMap)) = [None] \<and>
   map Metadata (Organizations (cleanContactForCreation sampleContact sampleMap)) = [None] \<and>
   map Metadata (Birthdays (cleanContactForCreation sampleContact sampleMap)) = [None] \<and>
   map Metadata (Biographies (cleanContactForCreation sampleContact sampleMap)) = [None] \<and>
   map Metadata (Urls (cleanContactForCreation sampleContact sampleMap)) = [None] \<and>
   map Metadata (UserDefined (cleanContactForCreation sampleContact sampleMap)) = [None] \<and>
   map Metadata (Events (cleanContactForCreation sampleContact sampleMap)) = [None] \<and>
   map Metadata (Relations (cleanContactForCreation sampleContact sampleMap)) = [None] \<and>
   map Metadata (Occupations (cleanContactForCreation sampleContact sampleMap)) = [None] \<and>
   map Metadata (Genders (cleanContactForCreation sampleContact sampleMap)) = [None] \<and>
   map Metadata (ImClients (cleanContactForCreation sampleContact sampleMap)) = [None] \<and>
   map Metadata (Interests (cleanContactForCreation sampleContact sampleMap)) = [None] \<and>
   map Metadata (SipAddresses (cleanContactForCreation sampleContact sampleMap)) = [None] \<and>
   map Metadata (CalendarUrls (cleanContactForCreation sampleContact sampleMap)) = [None] \<and>
   map Metadata (ExternalIds (cleanContactForCreation sampleContact sampleMap)) = [None] \<and>
   map Metadata (Locales (cleanContactForCreation sampleContact sampleMap)) = [None] \<and>
   map Metadata (Locations (cleanContactForCreation sampleContact sampleMap)) = [None] \<and>
   map Metadata (MiscKeywords (cleanContactForCreation sampleContact sampleMap)) = [None] \<and>
   map Metadata (ClientData (cleanContactForCreation sampleContact sampleMap)) = [None] \<and>
   Memberships (cleanContactForCreation sampleContact sampleMap) =
     [membershipOf ''contactGroups/myContacts'', newMembership ''contactGroups/9d20''] \<and>
   Metadata (membershipOf ''contactGroups/myContacts'') = Some stamp \<and>
   Metadata (newMembership ''contactGroups/9d20'') = None"
  using sanitize_output[of sampleContact sampleMap]
  by (simp add: clean_fields clean_Memberships sampleContact_def sampleMap_def membershipOf_def
      newMembership_def otherField_def HasPrefix_def)

text \<open>
  The list of names of the sanitizer also differs from \<^verbatim>\<open>systemGroups\<close> of the export: it
  has no \<^verbatim>\<open>contactGroups/blocked\<close>, so a membership of that system group is looked up in
  the remap table like a user group.
\<close>

theorem blocked_rewritten:
  "isSystemGroup ''contactGroups/blocked'' \<and>
   Memberships (cleanContactForCreation blockedContact blockedMap) =
     [newMembership ''contactGroups/51e0'']"
  by (simp add: clean_Memberships blockedContact_def blockedMap_def membershipOf_def
      HasPrefix_def isSystemGroup_def systemGroups_def)

section \<open>Properties of the directory client\<close>

subsection \<open>Paginated fetch\<close>

lemma listContactsLoop_pages:
  "servesContacts svc (calls s) tok ps \<Longrightarrow>
   \<exists>s'. listContactsLoop svc report acc tok tot s =
           Some (Inr (acc @ concat (map Connections ps)), s') \<and>
         calls s' = calls s @ map ConnectionsList (tok # map NextPageToken (butlast ps))"
proof (induction ps arbitrary: acc tok tot s)
  case Nil
  then show ?case by simp
next
  case (Cons p ps)
  from Cons.prems have resp: "connectionsList svc (calls s) tok = Inr p" by simp
  show ?case
  proof (cases "ps = []")
    case True
    with Cons.prems have last: "NextPageToken p = ''''" by simp
    show ?thesis
      by (subst listContactsLoop.simps) (simp add: resp last True Let_def)
  next
    case False
    with Cons.prems have more: "NextPageToken p \<noteq> ''''"
      and rest: "servesContacts svc (calls s @ [ConnectionsList tok]) (NextPageToken p) ps"
      by simp_all
    let ?tot = "if tot = 0 \<and> TotalPeople p > 0 then TotalPeople p else tot"
    let ?s1 = "s\<lparr>calls := calls s @ [ConnectionsList tok]\<rparr>"
    let ?s2 = "if report
               then ?s1\<lparr>progress := progress ?s1 @
                      [(int (length (acc @ Connections p)), ?tot)]\<rparr>
               else ?s1"
    have c2: "calls ?s2 = calls s @ [ConnectionsList tok]" by simp
    from rest have "servesContacts svc (calls ?s2) (NextPageToken p) ps"
      by (simp only: c2)
    from Cons.IH[OF this, of "acc @ Connections p" ?tot]
    obtain s' where
      run: "listContactsLoop svc report (acc @ Connections p) (NextPageToken p) ?tot ?s2 =
              Some (Inr ((acc @ Connections p) @ concat (map Connections ps)), s')"
      and cs: "calls s' = calls ?s2 @
                 map ConnectionsList (NextPageToken p # map NextPageToken (butlast ps))"
      by blast
    have "listContactsLoop svc report acc tok tot s =
            listContactsLoop svc report (acc @ Connections p) (NextPageToken p) ?tot ?s2"
      by (subst listContactsLoop.simps) (simp add: resp more Let_def)
    with run cs c2 False show ?thesis by simp
  qed
qed

lemma listGroupsLoop_pages:
  "servesGroups svc (calls s) tok ps \<Longrightarrow>
   \<exists>s'. listGroupsLoop svc acc tok s =
           Some (Inr (acc @ concat (map ContactGroups ps)), s') \<and>
         calls s' = calls s @ map ContactGroupsList (tok # map groups_NextPageToken (butlast ps))"
proof (induction ps arbitrary: acc tok s)
  case Nil
  then show ?case by simp
next
  case (Cons p ps)
  from Cons.prems have resp: "contactGroupsList svc (calls s) tok = Inr p" by simp
  show ?case
  proof (cases "ps = []")
    case True
    with Cons.prems have last: "groups_NextPageToken p = ''''" by simp
    show ?thesis
      by (subst listGroupsLoop.simps) (simp add: resp last True Let_def)
  next
    case False
    with Cons.prems have more: "groups_NextPageToken p \<noteq> ''''"
      and rest: "servesGroups svc (calls s @ [ContactGroupsList tok]) (groups_NextPageToken p) ps"
      by simp_all
    let ?s1 = "s\<lparr>calls := calls s @ [ContactGroupsList tok]\<rparr>"
    have c1: "calls ?s1 = calls s @ [ContactGroupsList tok]" by simp
    from rest have "servesGroups svc (calls ?s1) (groups_NextPageToken p) ps"
      by (simp only: c1)
    from Cons.IH[OF this, of "acc @ ContactGroups p"]
    obtain s' where
      run: "listGroupsLoop svc (acc @ ContactGroups p) (groups_NextPageToken p) ?s1 =
              Some (Inr ((acc @ ContactGroups p) @ concat (map ContactGroups ps)), s')"
      and cs: "calls s' = calls ?s1 @
                 map ContactGroupsList
                   (groups_NextPageToken p # map groups_NextPageToken (butlast ps))"
      by blast
    have "listGroupsLoop svc acc tok s =
            listGroupsLoop svc (acc @ ContactGroups p) (groups_NextPageToken p) ?s1"
      by (subst listGroupsLoop.simps) (simp add: resp more Let_def)
    with run cs c1 False show ?thesis by simp
  qed
qed

text \<open>
  Claim C4. When the service serves a finite sequence of pages of contacts linked by
  continuation tokens, the last one without token, \<^verbatim>\<open>ListContacts\<close> returns, without
  error, the concatenation of the pages in order, after one request for each page; and
  so does \<^verbatim>\<open>ListGroups\<close> for pages of groups. A single page that is empty and has no
  token is the case of one page.
\<close>

theorem pagination:
  assumes "servesContacts svc (calls s) '''' ps"
      and "servesGroups svc (calls s) '''' gs"
  shows "(\<exists>s'. ListContacts svc report s = Some (Inr (concat (map Connections ps)), s') \<and>
               calls s' = calls s @
                 map ConnectionsList ('''' # map NextPageToken (butlast ps))) \<and>
         (\<exists>s'. ListGroups svc s = Some (Inr (concat (map ContactGroups gs)), s') \<and>
               calls s' = calls s @
                 map ContactGroupsList ('''' # map groups_NextPageToken (butlast gs)))"
  using listContactsLoop_pages[OF assms(1), of report "[]" 0]
    listGroupsLoop_pages[OF assms(2), of "[]"]
  by (simp add: ListContacts_def ListGroups_def)

text \<open>
  Two pages of contacts and of groups, and a service whose only page is empty.
\<close>

theorem pagination_witness:
  "map_option fst (ListContacts pagedService True s0) =
     Some (Inr [contactNamed ''people/c1'', contactNamed ''people/c2'',
                contactNamed ''people/c3'']) \<and>
   map_option (calls \<circ> snd) (ListContacts pagedService True s0) =
     Some [ConnectionsList '''', ConnectionsList ''t1''] \<and>
   map_option fst (ListGroups pagedService s0) =
     Some (Inr [systemGroup ''contactGroups/myContacts'' ''myContacts'',
                userGroup ''contactGroups/3c1f'' ''Team'',
                userGroup ''contactGroups/77aa'' ''Club'']) \<and>
   map_option fst (ListContacts emptyService True s0) = Some (Inr []) \<and>
   map_option fst (ListGroups emptyService s0) = Some (Inr [])"
proof -
  let ?p1 = "\<lparr>Connections = [contactNamed ''people/c1'', contactNamed ''people/c2''],
               NextPageToken = ''t1'', TotalPeople = 3\<rparr>"
  let ?p2 = "\<lparr>Connections = [contactNamed ''people/c3''], NextPageToken = '''',
               TotalPeople = 3\<rparr>"
  let ?g1 = "\<lparr>ContactGroups = [systemGroup ''contactGroups/myContacts'' ''myContacts''],
               groups_NextPageToken = ''g1''\<rparr>"
  let ?g2 = "\<lparr>ContactGroups =
                 [userGroup ''contactGroups/3c1f'' ''Team'',
                  userGroup ''contactGroups/77aa'' ''Club''],
               groups_NextPageToken = ''''\<rparr>"
  let ?e1 = "\<lparr>Connections = [], NextPageToken = '''', TotalPeople = 0\<rparr>"
  let ?e2 = "\<lparr>ContactGroups = [], groups_NextPageToken = ''''\<rparr>"
  have a: "servesContacts pagedService (calls s0) '''' [?p1, ?p2]"
    by (simp add: pagedService_def)
  have b: "servesGroups pagedService (calls s0) '''' [?g1, ?g2]"
    by (simp add: pagedService_def)
  have c: "servesContacts emptyService (calls s0) '''' [?e1]"
    by (simp add: emptyService_def)
  have d: "servesGroups emptyService (calls s0) '''' [?e2]"
    by (simp add: emptyService_def)
  from pagination[OF a b, of True] pagination[OF c d, of True]
  show ?thesis
    by (auto simp: s0_def)
qed

subsection \<open>Batched mutation\<close>

lemma collectResourceNames_filter:
  "collectResourceNames acc contacts =
     acc @ filter (\<lambda>n. n \<noteq> '''') (map ResourceName contacts)"
  by (induction contacts arbitrary: acc) simp_all

lemma ceil_step:
  fixes n i b :: nat
  assumes "i < n" "0 < b"
  shows "(n - i + (b - 1)) div b = Suc ((n - (i + b) + (b - 1)) div b)"
proof -
  define k where "k = n - i + (b - 1) - b"
  from assms have x: "n - i + (b - 1) = k + b"
    by (simp add: k_def)
  have "(k + b) div b = Suc (k div b)"
    using assms(2) div_add_self2[of b k] by simp
  moreover have "k = n - (i + b) + (b - 1) \<or> (k < b \<and> n - (i + b) + (b - 1) < b)"
    using assms by (auto simp: k_def)
  then have "k div b = (n - (i + b) + (b - 1)) div b"
    by auto
  ultimately show ?thesis
    by (simp only: x)
qed

lemma deleteLoop_batches:
  assumes ok: "\<forall>h r. batchDeleteContacts svc h r = None"
  shows "\<exists>s' bs. deleteLoop svc report names tot i deleted s = (None, s') \<and>
           calls s' = calls s @ map BatchDeleteContacts bs \<and>
           concat bs = drop i names \<and>
           (\<forall>b \<in> set bs. 0 < length b \<and> length b \<le> batchDeleteSize) \<and>
           length bs = (length names - i + (batchDeleteSize - 1)) div batchDeleteSize"
proof (induction "length names - i" arbitrary: i deleted s rule: less_induct)
  case less
  show ?case
  proof (cases "i < length names")
    case False
    then show ?thesis
      by (subst deleteLoop.simps) (simp add: batchDeleteSize_def)
  next
    case True
    let ?end = "if i + batchDeleteSize > length names then length names else i + batchDeleteSize"
    let ?batch = "slice names i ?end"
    let ?s1 = "s\<lparr>calls := calls s @ [BatchDeleteContacts ?batch]\<rparr>"
    let ?deleted = "deleted + int (length ?batch)"
    let ?s2 = "if report then ?s1\<lparr>progress := progress ?s1 @ [(?deleted, tot)]\<rparr> else ?s1"
    have step: "deleteLoop svc report names tot i deleted s =
                  deleteLoop svc report names tot (i + batchDeleteSize) ?deleted ?s2"
      using True ok by (subst deleteLoop.simps) (simp add: Let_def)
    have smaller: "length names - (i + batchDeleteSize) < length names - i"
      using True by (simp add: batchDeleteSize_def)
    from less[OF smaller, of ?deleted ?s2]
    obtain s' bs where
      run: "deleteLoop svc report names tot (i + batchDeleteSize) ?deleted ?s2 = (None, s')"
      and cs: "calls s' = calls ?s2 @ map BatchDeleteContacts bs"
      and cat: "concat bs = drop (i + batchDeleteSize) names"
      and sz: "\<forall>b \<in> set bs. 0 < length b \<and> length b \<le> batchDeleteSize"
      and len: "length bs =
                  (length names - (i + batchDeleteSize) + (batchDeleteSize - 1))
                    div batchDeleteSize"
      by blast
    have c2: "calls ?s2 = calls s @ [BatchDeleteContacts ?batch]" by simp
    have batch: "?batch = take batchDeleteSize (drop i names)"
      using True by (simp add: slice_def)
    have "?batch @ drop (i + batchDeleteSize) names = drop i names"
      unfolding batch by (metis add.commute append_take_drop_id drop_drop)
    with cat have cat': "concat (?batch # bs) = drop i names" by simp
    have blen: "0 < length ?batch \<and> length ?batch \<le> batchDeleteSize"
      unfolding batch using True by (simp add: batchDeleteSize_def)
    have pos: "0 < batchDeleteSize" by (simp add: batchDeleteSize_def)
    have "length (?batch # bs) = Suc (length bs)" by simp
    also have "\<dots> = Suc ((length names - (i + batchDeleteSize) + (batchDeleteSize - 1))
                          div batchDeleteSize)"
      by (simp only: len)
    also have "\<dots> = (length names - i + (batchDeleteSize - 1)) div batchDeleteSize"
      by (rule ceil_step[OF True pos, symmetric])
    finally have len': "length (?batch # bs) =
                  (length names - i + (batchDeleteSize - 1)) div batchDeleteSize" .
    have "calls s' = calls s @ map BatchDeleteContacts (?batch # bs)"
      using cs c2 by simp
    with step run cat' blen sz len' show ?thesis
      by (intro exI[of _ s'] exI[of _ "?batch # bs"]) simp
  qed
qed

lemma createLoop_batches:
  assumes ok: "\<forall>h r. batchCreateContacts svc h r = None"
  shows "\<exists>s' bs. createLoop svc report contacts gm tot i created s = (None, s') \<and>
           calls s' = calls s @ map BatchCreateContacts bs \<and>
           concat bs = map (\<lambda>c. cleanContactForCreation c gm) (drop i contacts) \<and>
           (\<forall>b \<in> set bs. 0 < length b \<and> length b \<le> batchCreateSize) \<and>
           length bs = (length contacts - i + (batchCreateSize - 1)) div batchCreateSize"
proof (induction "length contacts - i" arbitrary: i created s rule: less_induct)
  case less
  show ?case
  proof (cases "i < length contacts")
    case False
    then show ?thesis
      by (subst createLoop.simps) (simp add: batchCreateSize_def)
  next
    case True
    let ?end = "if i + batchCreateSize > length contacts then length contacts
                else i + batchCreateSize"
    let ?batch = "slice contacts i ?end"
    let ?req = "map (\<lambda>c. cleanContactForCreation c gm) ?batch"
    let ?s1 = "s\<lparr>calls := calls s @ [BatchCreateContacts ?req]\<rparr>"
    let ?created = "created + int (length ?batch)"
    let ?s2 = "if report then ?s1\<lparr>progress := progress ?s1 @ [(?created, tot)]\<rparr> else ?s1"
    have step: "createLoop svc report contacts gm tot i created s =
                  createLoop svc report contacts gm tot (i + batchCreateSize) ?created ?s2"
      using True ok by (subst createLoop.simps) (simp add: Let_def)
    have smaller: "length contacts - (i + batchCreateSize) < length contacts - i"
      using True by (simp add: batchCreateSize_def)
    from less[OF smaller, of ?created ?s2]
    obtain s' bs where
      run: "createLoop svc report contacts gm tot (i + batchCreateSize) ?created ?s2 = (None, s')"
      and cs: "calls s' = calls ?s2 @ map BatchCreateContacts bs"
      and cat: "concat bs =
                  map (\<lambda>c. cleanContactForCreation c gm) (drop (i + batchCreateSize) contacts)"
      and sz: "\<forall>b \<in> set bs. 0 < length b \<and> length b \<le> batchCreateSize"
      and len: "length bs =
                  (length contacts - (i + batchCreateSize) + (batchCreateSize - 1))
                    div batchCreateSize"
      by blast
    have c2: "calls ?s2 = calls s @ [BatchCreateContacts ?req]" by simp
    have batch: "?batch = take batchCreateSize (drop i contacts)"
      using True by (simp add: slice_def)
    have "?batch @ drop (i + batchCreateSize) contacts = drop i contacts"
      unfolding batch by (metis add.commute append_take_drop_id drop_drop)
    then have "?req @ map (\<lambda>c. cleanContactForCreation c gm) (drop (i + batchCreateSize) contacts)
                 = map (\<lambda>c. cleanContactForCreation c gm) (drop i contacts)"
      by (metis map_append)
    with cat have cat': "concat (?req # bs) =
                           map (\<lambda>c. cleanContactForCreation c gm) (drop i contacts)"
      by simp
    have blen: "0 < length ?req \<and> length ?req \<le> batchCreateSize"
      unfolding batch using True by (simp add: batchCreateSize_def)
    have pos: "0 < batchCreateSize" by (simp add: batchCreateSize_def)
    have "length (?req # bs) = Suc (length bs)" by simp
    also have "\<dots> = Suc ((length contacts - (i + batchCreateSize) + (batchCreateSize - 1))
                          div batchCreateSize)"
      by (simp only: len)
    also have "\<dots> = (length contacts - i + (batchCreateSize - 1)) div batchCreateSize"
      by (rule ceil_step[OF True pos, symmetric])
    finally have len': "length (?req # bs) =
                  (length contacts - i + (batchCreateSize - 1)) div batchCreateSize" .
    have "calls s' = calls s @ map BatchCreateContacts (?req # bs)"
      using cs c2 by simp
    with step run cat' blen sz len' show ?thesis
      by (intro exI[of _ s'] exI[of _ "?req # bs"]) simp
  qed
qed

text \<open>
  Claim C3. \<^verbatim>\<open>DeleteAllContacts\<close>: when the listing returns the contacts and no batch
  request fails, the requests sent after the listing are the batches \<open>bs\<close> of the
  resource names to delete (those that are not empty): their concatenation is the list
  of names, in order, so every name is in exactly one batch; no batch is empty or has
  more than 500 names; and there are \<open>\<lceil>N / 500\<rceil> = (N + 499) div 500\<close> of them.
  \<^verbatim>\<open>CreateContacts\<close>: when no batch request fails, the requests sent are the batches of
  the sanitized contacts, with 200 for 500.
\<close>

theorem batch_partitioning:
  assumes listed: "ListContacts svc False s = Some (Inr contacts, s1)"
      and delete_ok: "\<forall>h r. batchDeleteContacts svc h r = None"
      and create_ok: "\<forall>h r. batchCreateContacts svc h r = None"
  shows "(\<exists>s2 bs. DeleteAllContacts svc report s = Some (None, s2) \<and>
            calls s2 = calls s1 @ map BatchDeleteContacts bs \<and>
            concat bs = filter (\<lambda>n. n \<noteq> '''') (map ResourceName contacts) \<and>
            (\<forall>b \<in> set bs. 0 < length b \<and> length b \<le> 500) \<and>
            length bs =
              (length (filter (\<lambda>n. n \<noteq> '''') (map ResourceName contacts)) + 499) div 500) \<and>
         (\<exists>s2 bs. CreateContacts svc toCreate groupMap report' sc = (None, s2) \<and>
            calls s2 = calls sc @ map BatchCreateContacts bs \<and>
            concat bs = map (\<lambda>c. cleanContactForCreation c groupMap) toCreate \<and>
            (\<forall>b \<in> set bs. 0 < length b \<and> length b \<le> 200) \<and>
            length bs = (length toCreate + 199) div 200)"
proof
  let ?names = "filter (\<lambda>n. n \<noteq> '''') (map ResourceName contacts)"
  show "\<exists>s2 bs. DeleteAllContacts svc report s = Some (None, s2) \<and>
            calls s2 = calls s1 @ map BatchDeleteContacts bs \<and>
            concat bs = ?names \<and>
            (\<forall>b \<in> set bs. 0 < length b \<and> length b \<le> 500) \<and>
            length bs = (length ?names + 499) div 500"
  proof (cases "contacts = []")
    case True
    with listed have "DeleteAllContacts svc report s = Some (None, s1)"
      by (simp add: DeleteAllContacts_def)
    with True show ?thesis
      by (intro exI[of _ s1] exI[of _ "[]"]) simp
  next
    case False
    with listed have "DeleteAllContacts svc report s =
        Some (deleteLoop svc report ?names (int (length contacts)) 0 0 s1)"
      by (simp add: DeleteAllContacts_def collectResourceNames_filter)
    with deleteLoop_batches[OF delete_ok, of report ?names "int (length contacts)" 0 0 s1]
    show ?thesis
      by (auto simp: batchDeleteSize_def)
  qed
  show "\<exists>s2 bs. CreateContacts svc toCreate groupMap report' sc = (None, s2) \<and>
            calls s2 = calls sc @ map BatchCreateContacts bs \<and>
            concat bs = map (\<lambda>c. cleanContactForCreation c groupMap) toCreate \<and>
            (\<forall>b \<in> set bs. 0 < length b \<and> length b \<le> 200) \<and>
            length bs = (length toCreate + 199) div 200"
  proof (cases "toCreate = []")
    case True
    then show ?thesis
      by (intro exI[of _ sc] exI[of _ "[]"]) (simp add: CreateContacts_def)
  next
    case False
    then have "CreateContacts svc toCreate groupMap report' sc =
        createLoop svc report' toCreate groupMap (int (length toCreate)) 0 0 sc"
      by (simp add: CreateContacts_def)
    with createLoop_batches[OF create_ok, of report' toCreate groupMap "int (length toCreate)" 0 0 sc]
    show ?thesis
      by (auto simp: batchCreateSize_def)
  qed
qed

lemma manyContacts_names:
  "filter (\<lambda>n. n \<noteq> '''') (map ResourceName (manyContacts n)) =
     map ResourceName (manyContacts n)"
  "length (map ResourceName (manyContacts n)) = n"
  "length (manyContacts n) = n"
  by (simp_all add: manyContacts_def contactNamed_def filter_map comp_def)

text \<open>
  A service with 501 contacts receives two requests to delete; 201 contacts to create
  make two requests.
\<close>

theorem batch_partitioning_witness:
  "(\<exists>s2 bs. DeleteAllContacts bulkService True s0 = Some (None, s2) \<and>
      calls s2 = ConnectionsList '''' # map BatchDeleteContacts bs \<and>
      concat bs = map ResourceName (manyContacts 501) \<and>
      length bs = 2) \<and>
   (\<exists>s2 bs. CreateContacts bulkService (manyContacts 201) sampleMap True s0 = (None, s2) \<and>
      calls s2 = map BatchCreateContacts bs \<and>
      concat bs = map (\<lambda>c. cleanContactForCreation c sampleMap) (manyContacts 201) \<and>
      length bs = 2)"
proof -
  have listed: "ListContacts bulkService False s0 =
      Some (Inr (manyContacts 501), s0\<lparr>calls := [ConnectionsList '''']\<rparr>)"
    unfolding ListContacts_def
    by (subst listContactsLoop.simps) (simp add: bulkService_def s0_def)
  have d: "\<forall>h r. batchDeleteContacts bulkService h r = None"
    by (simp add: bulkService_def)
  have c: "\<forall>h r. batchCreateContacts bulkService h r = None"
    by (simp add: bulkService_def)
  from batch_partitioning[OF listed d c, of True "manyContacts 201" sampleMap True s0]
  show ?thesis
    by (simp add: manyContacts_names s0_def) blast
qed

subsection \<open>Best-effort deletion of the user groups\<close>

lemma deleteGroupsLoop_run:
  "\<exists>s'. deleteGroupsLoop svc report tot groups deleted s = (None, s') \<and>
     calls s' = calls s @ map (ContactGroupsDelete \<circ> group_ResourceName) groups \<and>
     stdout s' = stdout s @
       concat (map2 (\<lambda>g out. case out of None \<Rightarrow> []
                     | Some err \<Rightarrow> [deleteWarning (group_Name g) err])
                 groups (deleteOutcomes svc (calls s) (map group_ResourceName groups))) \<and>
     progress s' = progress s @
       (if report
        then map (\<lambda>k. (deleted + int (length (filter (\<lambda>out. out = None)
                          (take (Suc k)
                             (deleteOutcomes svc (calls s) (map group_ResourceName groups))))),
                        tot))
               [0..<length groups]
        else [])"
proof (induction groups arbitrary: deleted s)
  case Nil
  show ?case by simp
next
  case (Cons g groups)
  have upt: "[0..<length (g # groups)] = 0 # map Suc [0..<length groups]"
    by (simp add: upt_conv_Cons map_Suc_upt del: upt_Suc)
  let ?s1 = "s\<lparr>calls := calls s @ [ContactGroupsDelete (group_ResourceName g)]\<rparr>"
  show ?case
  proof (cases "contactGroupsDelete svc (calls s) (group_ResourceName g)")
    case None
    let ?s3 = "if report then ?s1\<lparr>progress := progress ?s1 @ [(deleted + 1, tot)]\<rparr> else ?s1"
    have step: "deleteGroupsLoop svc report tot (g # groups) deleted s =
                  deleteGroupsLoop svc report tot groups (deleted + 1) ?s3"
      using None by (simp add: Let_def)
    have c3: "calls ?s3 = calls s @ [ContactGroupsDelete (group_ResourceName g)]"
      and o3: "stdout ?s3 = stdout s"
      and p3: "progress ?s3 = progress s @ (if report then [(deleted + 1, tot)] else [])"
      by simp_all
    from Cons.IH[of "deleted + 1" ?s3] obtain s' where
      run: "deleteGroupsLoop svc report tot groups (deleted + 1) ?s3 = (None, s')"
      and cs: "calls s' = calls ?s3 @ map (ContactGroupsDelete \<circ> group_ResourceName) groups"
      and os: "stdout s' = stdout ?s3 @
         concat (map2 (\<lambda>g out. case out of None \<Rightarrow> []
                       | Some err \<Rightarrow> [deleteWarning (group_Name g) err])
                   groups (deleteOutcomes svc (calls ?s3) (map group_ResourceName groups)))"
      and ps: "progress s' = progress ?s3 @
         (if report
          then map (\<lambda>k. (deleted + 1 + int (length (filter (\<lambda>out. out = None)
                            (take (Suc k)
                               (deleteOutcomes svc (calls ?s3) (map group_ResourceName groups))))),
                          tot))
                 [0..<length groups]
          else [])"
      by blast
    show ?thesis
      apply (rule exI[of _ s'])
      apply (simp only: step run upt)
      using cs os ps None
      apply (simp only: c3 o3 p3)
      apply (simp add: comp_def)
      done
  next
    case (Some err)
    let ?s2 = "?s1\<lparr>stdout := stdout ?s1 @ [deleteWarning (group_Name g) err]\<rparr>"
    let ?s3 = "if report then ?s2\<lparr>progress := progress ?s2 @ [(deleted, tot)]\<rparr> else ?s2"
    have step: "deleteGroupsLoop svc report tot (g # groups) deleted s =
                  deleteGroupsLoop svc report tot groups deleted ?s3"
      using Some by (simp add: Let_def)
    have c3: "calls ?s3 = calls s @ [ContactGroupsDelete (group_ResourceName g)]"
      and o3: "stdout ?s3 = stdout s @ [deleteWarning (group_Name g) err]"
      and p3: "progress ?s3 = progress s @ (if report then [(deleted, tot)] else [])"
      by simp_all
    from Cons.IH[of deleted ?s3] obtain s' where
      run: "deleteGroupsLoop svc report tot groups deleted ?s3 = (None, s')"
      and cs: "calls s' = calls ?s3 @ map (ContactGroupsDelete \<circ> group_ResourceName) groups"
      and os: "stdout s' = stdout ?s3 @
         concat (map2 (\<lambda>g out. case out of None \<Rightarrow> []
                       | Some err \<Rightarrow> [deleteWarning (group_Name g) err])
                   groups (deleteOutcomes svc (calls ?s3) (map group_ResourceName groups)))"
      and ps: "progress s' = progress ?s3 @
         (if report
          then map (\<lambda>k. (deleted + int (length (filter (\<lambda>out. out = None)
                            (take (Suc k)
                               (deleteOutcomes svc (calls ?s3) (map group_ResourceName groups))))),
                          tot))
                 [0..<length groups]
          else [])"
      by blast
    show ?thesis
      apply (rule exI[of _ s'])
      apply (simp only: step run upt)
      using cs os ps Some
      apply (simp only: c3 o3 p3)
      apply (simp add: comp_def)
      done
  qed
qed

text \<open>
  Claim C8. If the listing of the groups fails, \<^verbatim>\<open>DeleteUserGroups\<close> returns that error
  and sends no deletion. If the listing returns, \<^verbatim>\<open>DeleteUserGroups\<close> returns no error,
  whatever the service answers to the deletions: it sends one deletion for every user
  group, in order; it prints one warning for every deletion that failed; and the count
  it reports after the \<open>k\<close>-th deletion is the number of deletions that succeeded so far.
  If the listing runs forever, so does the operation.
\<close>

theorem delete_user_groups_best_effort:
  "(\<forall>err s1. ListGroups svc s = Some (Inl err, s1) \<longrightarrow>
      DeleteUserGroups svc report s = Some (Some err, s1)) \<and>
   (\<forall>groups s1. ListGroups svc s = Some (Inr groups, s1) \<longrightarrow>
      (\<exists>s2. DeleteUserGroups svc report s = Some (None, s2) \<and>
         calls s2 = calls s1 @
           map (ContactGroupsDelete \<circ> group_ResourceName)
             (filter (\<lambda>g. GroupType g = ''USER_CONTACT_GROUP'') groups) \<and>
         stdout s2 = stdout s1 @
           concat (map2 (\<lambda>g out. case out of None \<Rightarrow> []
                         | Some err \<Rightarrow> [deleteWarning (group_Name g) err])
                     (filter (\<lambda>g. GroupType g = ''USER_CONTACT_GROUP'') groups)
                     (deleteOutcomes svc (calls s1)
                        (map group_ResourceName
                           (filter (\<lambda>g. GroupType g = ''USER_CONTACT_GROUP'') groups)))) \<and>
         progress s2 = progress s1 @
           (if report
            then map (\<lambda>k. (int (length (filter (\<lambda>out. out = None)
                              (take (Suc k)
                                 (deleteOutcomes svc (calls s1)
                                    (map group_ResourceName
                                       (filter (\<lambda>g. GroupType g = ''USER_CONTACT_GROUP'')
                                          groups)))))),
                            int (length (filter (\<lambda>g. GroupType g = ''USER_CONTACT_GROUP'')
                                           groups))))
                   [0..<length (filter (\<lambda>g. GroupType g = ''USER_CONTACT_GROUP'') groups)]
            else []))) \<and>
   (ListGroups svc s = None \<longrightarrow> DeleteUserGroups svc report s = None)"
proof (intro conjI allI impI)
  fix err s1
  assume "ListGroups svc s = Some (Inl err, s1)"
  then show "DeleteUserGroups svc report s = Some (Some err, s1)"
    by (simp add: DeleteUserGroups_def)
next
  assume "ListGroups svc s = None"
  then show "DeleteUserGroups svc report s = None"
    by (simp add: DeleteUserGroups_def)
next
  fix groups s1
  assume listed: "ListGroups svc s = Some (Inr groups, s1)"
  let ?ugs = "filter (\<lambda>g. GroupType g = ''USER_CONTACT_GROUP'') groups"
  have run: "DeleteUserGroups svc report s =
               Some (deleteGroupsLoop svc report (int (length ?ugs)) ?ugs 0 s1)"
  proof (cases "?ugs = []")
    case True
    with listed show ?thesis by (simp add: DeleteUserGroups_def)
  next
    case False
    with listed show ?thesis by (simp add: DeleteUserGroups_def Let_def)
  qed
  from deleteGroupsLoop_run[of svc report "int (length ?ugs)" ?ugs 0 s1]
  obtain s2 where
    r: "deleteGroupsLoop svc report (int (length ?ugs)) ?ugs 0 s1 = (None, s2)"
    and c: "calls s2 = calls s1 @ map (ContactGroupsDelete \<circ> group_ResourceName) ?ugs"
    and o: "stdout s2 = stdout s1 @
           concat (map2 (\<lambda>g out. case out of None \<Rightarrow> []
                         | Some err \<Rightarrow> [deleteWarning (group_Name g) err])
                     ?ugs (deleteOutcomes svc (calls s1) (map group_ResourceName ?ugs)))"
    and p0: "progress s2 = progress s1 @
           (if report
            then map (\<lambda>k. (0 + int (length (filter (\<lambda>out. out = None)
                              (take (Suc k)
                                 (deleteOutcomes svc (calls s1)
                                    (map group_ResourceName ?ugs))))),
                            int (length ?ugs)))
                   [0..<length ?ugs]
            else [])"
    by blast
  from p0 have p: "progress s2 = progress s1 @
           (if report
            then map (\<lambda>k. (int (length (filter (\<lambda>out. out = None)
                              (take (Suc k)
                                 (deleteOutcomes svc (calls s1)
                                    (map group_ResourceName ?ugs))))),
                            int (length ?ugs)))
                   [0..<length ?ugs]
            else [])"
    by (simp only: add_0)
  show "\<exists>s2. DeleteUserGroups svc report s = Some (None, s2) \<and>
         calls s2 = calls s1 @ map (ContactGroupsDelete \<circ> group_ResourceName) ?ugs \<and>
         stdout s2 = stdout s1 @
           concat (map2 (\<lambda>g out. case out of None \<Rightarrow> []
                         | Some err \<Rightarrow> [deleteWarning (group_Name g) err])
                     ?ugs (deleteOutcomes svc (calls s1) (map group_ResourceName ?ugs))) \<and>
         progress s2 = progress s1 @
           (if report
            then map (\<lambda>k. (int (length (filter (\<lambda>out. out = None)
                              (take (Suc k)
                                 (deleteOutcomes svc (calls s1)
                                    (map group_ResourceName ?ugs))))),
                            int (length ?ugs)))
                   [0..<length ?ugs]
            else [])"
    by (rule exI[of _ s2]) (simp only: run r c o p simp_thms)
qed

text \<open>
  A service that cannot list, and one with a system group and two user groups that
  refuses to delete the first user group: one warning, and the reports 0 of 2, 1 of 2.
\<close>

theorem delete_user_groups_best_effort_witness:
  "DeleteUserGroups failingService True s0 =
     Some (Some (Wrap ''failed to list contact groups'' (Err ''unavailable'')),
           s0\<lparr>calls := [ContactGroupsList '''']\<rparr>) \<and>
   (\<exists>s2. DeleteUserGroups pagedService True s0 = Some (None, s2) \<and>
      calls s2 = [ContactGroupsList '''', ContactGroupsList ''g1'',
                  ContactGroupsDelete ''contactGroups/3c1f'',
                  ContactGroupsDelete ''contactGroups/77aa''] \<and>
      stdout s2 = [deleteWarning ''Team'' (Err ''backend error'')] \<and>
      progress s2 = [(0, 2), (1, 2)])"
proof -
  have failing: "ListGroups failingService s0 =
      Some (Inl (Wrap ''failed to list contact groups'' (Err ''unavailable'')),
            s0\<lparr>calls := [ContactGroupsList '''']\<rparr>)"
    unfolding ListGroups_def
    by (subst listGroupsLoop.simps) (simp add: failingService_def s0_def)
  have paged: "ListGroups pagedService s0 =
      Some (Inr [systemGroup ''contactGroups/myContacts'' ''myContacts'',
                 userGroup ''contactGroups/3c1f'' ''Team'',
                 userGroup ''contactGroups/77aa'' ''Club''],
            s0\<lparr>calls := [ContactGroupsList '''', ContactGroupsList ''g1'']\<rparr>)"
    unfolding ListGroups_def
    apply (subst listGroupsLoop.simps)
    apply (simp add: pagedService_def s0_def)
    apply (subst listGroupsLoop.simps)
    apply (simp add: pagedService_def s0_def)
    done
  have sel: "contactGroupsDelete pagedService =
      (\<lambda>h n. if n = ''contactGroups/3c1f'' then Some (Err ''backend error'') else None)"
    by (simp add: pagedService_def)
  from delete_user_groups_best_effort[of failingService s0 True]
    delete_user_groups_best_effort[of pagedService s0 True] failing paged
  show ?thesis
    by (simp add: sel s0_def systemGroup_def userGroup_def upt_conv_Cons)
qed

section \<open>Properties of the backup store\<close>

text \<open>
  Claim C6, as stated, fails in its clause that every structural defect other than a
  missing version is rejected as a parse error: an object that has a version and none of
  the five other keys of an archive is loaded without error, with zero values for what
  it lacks.
\<close>

theorem bare_object_loads:
  "LoadBackupFile sampleFiles ''bare.json'' =
     Inr \<lparr>Version = ''1.0'', CreatedAt = 0, ContactCount = 0, GroupCount = 0,
          Contacts = [], Groups = []\<rparr>"
  by (simp add: sampleFiles_def LoadBackupFile_def)

text \<open>
  Claim C6, as amended. \<^verbatim>\<open>LoadBackupFile\<close> returns an error exactly when the file cannot
  be read, or its content is rejected by the decoder, or the decoded version is empty (the
  key is absent or holds the empty string). The three errors are told apart: a read error
  and a decoding error are wrapped with their context, the third is the error of the
  missing version. The decoder is the only judge of the structure: an object with a
  version that is not empty is loaded whatever else it holds or lacks, a key that is
  absent being read as the zero value of its field. An archive that is returned has a
  version that is not empty, and is what the decoder made of the file.
\<close>

theorem load_errors:
  "(isl (LoadBackupFile readFile path) \<longleftrightarrow>
      (isl (readFile path) \<or>
       (\<exists>d. readFile path = Inr d \<and>
          (isl (jsonUnmarshal d) \<or>
           (\<exists>b. jsonUnmarshal d = Inr b \<and> Version b = ''''))))) \<and>
   (\<forall>err. readFile path = Inl err \<longrightarrow>
      LoadBackupFile readFile path = Inl (Wrap ''failed to read backup file'' err)) \<and>
   (\<forall>d err. readFile path = Inr d \<and> jsonUnmarshal d = Inl err \<longrightarrow>
      LoadBackupFile readFile path = Inl (Wrap ''failed to parse backup file'' err)) \<and>
   (\<forall>d b. readFile path = Inr d \<and> jsonUnmarshal d = Inr b \<and> Version b = '''' \<longrightarrow>
      LoadBackupFile readFile path = Inl (Err ''invalid backup file: missing version'')) \<and>
   (\<forall>j. readFile path = Inr (Object j) \<longrightarrow>
      (LoadBackupFile readFile path = Inl (Err ''invalid backup file: missing version'') \<longleftrightarrow>
       json_version j = None \<or> json_version j = Some '''')) \<and>
   (\<forall>j v. readFile path = Inr (Object j) \<and> json_version j = Some v \<and> v \<noteq> '''' \<longrightarrow>
      LoadBackupFile readFile path =
        Inr \<lparr>Version = v,
             CreatedAt = (case json_created_at j of Some t \<Rightarrow> t | None \<Rightarrow> 0),
             ContactCount = (case json_contact_count j of Some n \<Rightarrow> n | None \<Rightarrow> 0),
             GroupCount = (case json_group_count j of Some n \<Rightarrow> n | None \<Rightarrow> 0),
             Contacts = (case json_contacts j of Some cs \<Rightarrow> cs | None \<Rightarrow> []),
             Groups = (case json_groups j of Some gs \<Rightarrow> gs | None \<Rightarrow> [])\<rparr>) \<and>
   (\<forall>d. readFile path = Inr d \<longrightarrow>
      (isl (jsonUnmarshal d) \<longleftrightarrow> (\<exists>err. d = Rejected err))) \<and>
   (\<forall>b. LoadBackupFile readFile path = Inr b \<longrightarrow>
      Version b \<noteq> '''' \<and> (\<exists>d. readFile path = Inr d \<and> jsonUnmarshal d = Inr b))"
proof -
  have main: "(isl (LoadBackupFile readFile path) \<longleftrightarrow>
      (isl (readFile path) \<or>
       (\<exists>d. readFile path = Inr d \<and>
          (isl (jsonUnmarshal d) \<or>
           (\<exists>b. jsonUnmarshal d = Inr b \<and> Version b = ''''))))) \<and>
   (\<forall>err. readFile path = Inl err \<longrightarrow>
      LoadBackupFile readFile path = Inl (Wrap ''failed to read backup file'' err)) \<and>
   (\<forall>d err. readFile path = Inr d \<and> jsonUnmarshal d = Inl err \<longrightarrow>
      LoadBackupFile readFile path = Inl (Wrap ''failed to parse backup file'' err)) \<and>
   (\<forall>d b. readFile path = Inr d \<and> jsonUnmarshal d = Inr b \<and> Version b = '''' \<longrightarrow>
      LoadBackupFile readFile path = Inl (Err ''invalid backup file: missing version'')) \<and>
   (\<forall>j. readFile path = Inr (Object j) \<longrightarrow>
      (LoadBackupFile readFile path = Inl (Err ''invalid backup file: missing version'') \<longleftrightarrow>
       json_version j = None \<or> json_version j = Some ''''))"
    by (auto simp: LoadBackupFile_def split: sum.splits option.splits if_splits)
  have accepted: "\<forall>j v. readFile path = Inr (Object j) \<and> json_version j = Some v \<and> v \<noteq> '''' \<longrightarrow>
      LoadBackupFile readFile path =
        Inr \<lparr>Version = v,
             CreatedAt = (case json_created_at j of Some t \<Rightarrow> t | None \<Rightarrow> 0),
             ContactCount = (case json_contact_count j of Some n \<Rightarrow> n | None \<Rightarrow> 0),
             GroupCount = (case json_group_count j of Some n \<Rightarrow> n | None \<Rightarrow> 0),
             Contacts = (case json_contacts j of Some cs \<Rightarrow> cs | None \<Rightarrow> []),
             Groups = (case json_groups j of Some gs \<Rightarrow> gs | None \<Rightarrow> [])\<rparr>"
    by (simp add: LoadBackupFile_def)
  have parse: "\<forall>d. readFile path = Inr d \<longrightarrow>
      (isl (jsonUnmarshal d) \<longleftrightarrow> (\<exists>err. d = Rejected err))"
  proof (intro allI impI)
    fix d
    show "isl (jsonUnmarshal d) \<longleftrightarrow> (\<exists>err. d = Rejected err)"
      by (cases d) simp_all
  qed
  have returned: "\<forall>b. LoadBackupFile readFile path = Inr b \<longrightarrow>
      Version b \<noteq> '''' \<and> (\<exists>d. readFile path = Inr d \<and> jsonUnmarshal d = Inr b)"
    by (auto simp: LoadBackupFile_def split: sum.splits if_splits)
  from main accepted parse returned show ?thesis
    by (intro conjI) (elim conjE, assumption)+
qed

text \<open>
  A missing file, bytes that are no JSON, a missing and an empty version, an object with
  nothing but a version, and a backup.
\<close>

theorem load_errors_witness:
  "LoadBackupFile sampleFiles ''missing.json'' =
     Inl (Wrap ''failed to read backup file'' (Err ''no such file or directory'')) \<and>
   LoadBackupFile sampleFiles ''garbage.json'' =
     Inl (Wrap ''failed to parse backup file'' (Err ''invalid character'')) \<and>
   LoadBackupFile sampleFiles ''noversion.json'' =
     Inl (Err ''invalid backup file: missing version'') \<and>
   LoadBackupFile sampleFiles ''emptyversion.json'' =
     Inl (Err ''invalid backup file: missing version'') \<and>
   isl (LoadBackupFile sampleFiles ''bare.json'') = False \<and>
   isl (LoadBackupFile sampleFiles ''backup.json'') = False \<and>
   Version (projr (LoadBackupFile sampleFiles ''backup.json'')) = ''1.0''"
  using load_errors[of sampleFiles "''missing.json''"]
    load_errors[of sampleFiles "''garbage.json''"]
    load_errors[of sampleFiles "''noversion.json''"]
    load_errors[of sampleFiles "''emptyversion.json''"]
    load_errors[of sampleFiles "''bare.json''"]
    load_errors[of sampleFiles "''backup.json''"]
  by (simp add: sampleFiles_def sampleObject_def LoadBackupFile_def)

text \<open>
  Claim C7, as stated, fails for an archive obtained from a load: a file that declares
  seven contacts and holds one is loaded as it is.
\<close>

theorem load_keeps_declared_counts:
  "LoadBackupFile sampleFiles ''edited.json'' =
     Inr \<lparr>Version = ''1.0'', CreatedAt = 1700000000, ContactCount = 7, GroupCount = 0,
          Contacts = [contactNamed ''people/c1''], Groups = []\<rparr> \<and>
   countsMatch \<lparr>Version = ''1.0'', CreatedAt = 1700000000, ContactCount = 7, GroupCount = 0,
          Contacts = [contactNamed ''people/c1''], Groups = []\<rparr> = False"
  by (simp add: sampleFiles_def sampleObject_def LoadBackupFile_def countsMatch_def)

text \<open>
  Claim C7, as amended. The counts equal the lengths of the lists after
  \<^verbatim>\<open>NewBackupFile\<close>; \<^verbatim>\<open>AddContact\<close> and \<^verbatim>\<open>AddGroup\<close> append to their list, set their count
  to its length and so preserve the invariant; an archive obtained from a load has the
  counts and the lists that the file holds, so the invariant holds for it exactly when
  the counts in the file equal the lengths of the lists in the file.
\<close>

theorem counts_invariant:
  "countsMatch (NewBackupFile now) \<and>
   (countsMatch b \<longrightarrow> countsMatch (AddContact b contact) \<and> countsMatch (AddGroup b grp)) \<and>
   ContactCount (AddContact b contact) = int (length (Contacts (AddContact b contact))) \<and>
   Contacts (AddContact b contact) = Contacts b @ [contact] \<and>
   GroupCount (AddGroup b grp) = int (length (Groups (AddGroup b grp))) \<and>
   Groups (AddGroup b grp) = Groups b @ [grp] \<and>
   (\<forall>j loaded. readFile path = Inr (Object j) \<and> LoadBackupFile readFile path = Inr loaded \<longrightarrow>
      ContactCount loaded = (case json_contact_count j of Some n \<Rightarrow> n | None \<Rightarrow> 0) \<and>
      GroupCount loaded = (case json_group_count j of Some n \<Rightarrow> n | None \<Rightarrow> 0) \<and>
      Contacts loaded = (case json_contacts j of Some cs \<Rightarrow> cs | None \<Rightarrow> []) \<and>
      Groups loaded = (case json_groups j of Some gs \<Rightarrow> gs | None \<Rightarrow> []) \<and>
      (countsMatch loaded \<longleftrightarrow>
         (case json_contact_count j of Some n \<Rightarrow> n | None \<Rightarrow> 0) =
           int (length (case json_contacts j of Some cs \<Rightarrow> cs | None \<Rightarrow> [])) \<and>
         (case json_group_count j of Some n \<Rightarrow> n | None \<Rightarrow> 0) =
           int (length (case json_groups j of Some gs \<Rightarrow> gs | None \<Rightarrow> []))))"
proof -
  have new: "countsMatch (NewBackupFile now)"
    by (simp add: countsMatch_def NewBackupFile_def)
  have add: "countsMatch b \<longrightarrow> countsMatch (AddContact b contact) \<and> countsMatch (AddGroup b grp)"
    by (simp add: countsMatch_def AddContact_def AddGroup_def Let_def)
  have fields:
    "ContactCount (AddContact b contact) = int (length (Contacts (AddContact b contact)))"
    "Contacts (AddContact b contact) = Contacts b @ [contact]"
    "GroupCount (AddGroup b grp) = int (length (Groups (AddGroup b grp)))"
    "Groups (AddGroup b grp) = Groups b @ [grp]"
    by (simp_all add: AddContact_def AddGroup_def Let_def)
  have load: "\<forall>j loaded. readFile path = Inr (Object j) \<and> LoadBackupFile readFile path = Inr loaded \<longrightarrow>
      ContactCount loaded = (case json_contact_count j of Some n \<Rightarrow> n | None \<Rightarrow> 0) \<and>
      GroupCount loaded = (case json_group_count j of Some n \<Rightarrow> n | None \<Rightarrow> 0) \<and>
      Contacts loaded = (case json_contacts j of Some cs \<Rightarrow> cs | None \<Rightarrow> []) \<and>
      Groups loaded = (case json_groups j of Some gs \<Rightarrow> gs | None \<Rightarrow> []) \<and>
      (countsMatch loaded \<longleftrightarrow>
         (case json_contact_count j of Some n \<Rightarrow> n | None \<Rightarrow> 0) =
           int (length (case json_contacts j of Some cs \<Rightarrow> cs | None \<Rightarrow> [])) \<and>
         (case json_group_count j of Some n \<Rightarrow> n | None \<Rightarrow> 0) =
           int (length (case json_groups j of Some gs \<Rightarrow> gs | None \<Rightarrow> [])))"
  proof (intro allI impI)
    fix j loaded
    assume a: "readFile path = Inr (Object j) \<and> LoadBackupFile readFile path = Inr loaded"
    then have r: "readFile path = Inr (Object j)"
      and l: "LoadBackupFile readFile path = Inr loaded"
      by simp_all
    from l have "loaded = projr (jsonUnmarshal (Object j))"
      by (simp add: LoadBackupFile_def r split: if_splits)
    then show "ContactCount loaded = (case json_contact_count j of Some n \<Rightarrow> n | None \<Rightarrow> 0) \<and>
      GroupCount loaded = (case json_group_count j of Some n \<Rightarrow> n | None \<Rightarrow> 0) \<and>
      Contacts loaded = (case json_contacts j of Some cs \<Rightarrow> cs | None \<Rightarrow> []) \<and>
      Groups loaded = (case json_groups j of Some gs \<Rightarrow> gs | None \<Rightarrow> []) \<and>
      (countsMatch loaded \<longleftrightarrow>
         (case json_contact_count j of Some n \<Rightarrow> n | None \<Rightarrow> 0) =
           int (length (case json_contacts j of Some cs \<Rightarrow> cs | None \<Rightarrow> [])) \<and>
         (case json_group_count j of Some n \<Rightarrow> n | None \<Rightarrow> 0) =
           int (length (case json_groups j of Some gs \<Rightarrow> gs | None \<Rightarrow> [])))"
      by (simp add: countsMatch_def)
  qed
  from new add fields load show ?thesis by blast
qed

text \<open>
  A new archive, an archive after one contact or one group, and the loaded sample backup.
\<close>

theorem counts_invariant_witness:
  "countsMatch (NewBackupFile 1700000000) \<and>
   countsMatch (AddContact (NewBackupFile 1700000000) (contactNamed ''people/c1'')) \<and>
   ContactCount (AddContact (NewBackupFile 1700000000) (contactNamed ''people/c1'')) = 1 \<and>
   countsMatch (AddGroup (NewBackupFile 1700000000) (userGroup ''contactGroups/3c1f'' ''Team'')) \<and>
   countsMatch (projr (LoadBackupFile sampleFiles ''backup.json'')) \<and>
   ContactCount (projr (LoadBackupFile sampleFiles ''backup.json'')) = 1"
proof -
  have r: "sampleFiles ''backup.json'' = Inr (Object sampleObject)"
    by (simp add: sampleFiles_def)
  have l: "LoadBackupFile sampleFiles ''backup.json'' =
             Inr (projr (LoadBackupFile sampleFiles ''backup.json''))"
    by (simp add: LoadBackupFile_def r sampleObject_def)
  from counts_invariant[of 1700000000 "NewBackupFile 1700000000" "contactNamed ''people/c1''"
      "userGroup ''contactGroups/3c1f'' ''Team''" sampleFiles "''backup.json''"] r l
  show ?thesis
    by (simp add: sampleObject_def NewBackupFile_def)
qed

text \<open>
  Claim C5. When \<^verbatim>\<open>SaveToFile\<close> has written an archive whose version is not empty,
  \<^verbatim>\<open>LoadBackupFile\<close> of the same path returns that archive, field for field. The version
  is the one thing that a well-formed archive needs here: an archive with an empty
  version is written as well and is refused by the load. The other files are as they
  were.
\<close>

theorem load_after_save:
  "(SaveToFile writeFails files b path = (None, files') \<and> Version b \<noteq> '''' \<longrightarrow>
      LoadBackupFile files' path = Inr b) \<and>
   (SaveToFile writeFails files b path = (None, files') \<and> Version b = '''' \<longrightarrow>
      LoadBackupFile files' path = Inl (Err ''invalid backup file: missing version'')) \<and>
   (SaveToFile writeFails files b path = (None, files') \<longrightarrow>
      (\<forall>other. other \<noteq> path \<longrightarrow> files' other = files other))"
proof -
  have saved: "files' = files(path := Inr (Object
       \<lparr>json_version = Some (Version b), json_created_at = Some (CreatedAt b),
        json_contact_count = Some (ContactCount b), json_group_count = Some (GroupCount b),
        json_contacts = Some (Contacts b), json_groups = Some (Groups b)\<rparr>))"
    if "SaveToFile writeFails files b path = (None, files')"
    using that by (auto simp: SaveToFile_def jsonMarshalIndent_def split: option.splits)
  have eta: "\<lparr>Version = Version b, CreatedAt = CreatedAt b, ContactCount = ContactCount b,
               GroupCount = GroupCount b, Contacts = Contacts b, Groups = Groups b\<rparr> = b"
    by simp
  show ?thesis
    using saved eta by (auto simp: LoadBackupFile_def)
qed

text \<open>
  An archive of one contact, built with \<^verbatim>\<open>NewBackupFile\<close> and \<^verbatim>\<open>AddContact\<close>, is written to
  a new file and loaded back.
\<close>

theorem load_after_save_witness:
  "SaveToFile (\<lambda>p. None) sampleFiles oneContactBackup ''new.json'' =
     (None, snd (SaveToFile (\<lambda>p. None) sampleFiles oneContactBackup ''new.json'')) \<and>
   LoadBackupFile (snd (SaveToFile (\<lambda>p. None) sampleFiles oneContactBackup ''new.json''))
     ''new.json'' = Inr oneContactBackup \<and>
   Version oneContactBackup = ''1.0'' \<and>
   Contacts oneContactBackup = [contactNamed ''people/c1''] \<and>
   LoadBackupFile (snd (SaveToFile (\<lambda>p. None) sampleFiles oneContactBackup ''new.json''))
     ''missing.json'' =
     Inl (Wrap ''failed to read backup file'' (Err ''no such file or directory''))"
proof -
  have s: "SaveToFile (\<lambda>p. None) sampleFiles oneContactBackup ''new.json'' =
     (None, snd (SaveToFile (\<lambda>p. None) sampleFiles oneContactBackup ''new.json''))"
    by (simp add: SaveToFile_def jsonMarshalIndent_def)
  have v: "Version oneContactBackup = ''1.0''"
    "Contacts oneContactBackup = [contactNamed ''people/c1'']"
    by (simp_all add: oneContactBackup_def AddContact_def NewBackupFile_def BackupVersion_def
        Let_def)
  have m: "sampleFiles ''missing.json'' = Inl (Err ''no such file or directory'')"
    by (simp add: sampleFiles_def)
  from load_after_save[of "\<lambda>p. None" sampleFiles oneContactBackup "''new.json''"
      "snd (SaveToFile (\<lambda>p. None) sampleFiles oneContactBackup ''new.json'')"] s v m
  show ?thesis
    by (simp add: LoadBackupFile_def)
qed

section \<open>Properties of the tabular export\<close>

lemma length_forUpTo:
  assumes "\<forall>i st. length (body i st) = length st + k"
  shows "length (forUpTo i n body st) = length st + k * nat (n + 1 - i)"
  using assms
proof (induction i n body st rule: forUpTo.induct)
  case (1 i n body st)
  show ?case
  proof (cases "i \<le> n")
    case True
    then have "nat (n + 1 - i) = Suc (nat (n + 1 - (i + 1)))" by simp
    with 1 True show ?thesis
      by (subst forUpTo.simps) (simp del: forUpTo.simps)
  next
    case False
    then show ?thesis by simp
  qed
qed

lemma length_forBelow:
  assumes "\<forall>i st. length (body i st) = length st + k"
  shows "length (forBelow i n body st) = length st + k * nat (n - i)"
  using assms
proof (induction i n body st rule: forBelow.induct)
  case (1 i n body st)
  show ?case
  proof (cases "i < n")
    case True
    then have "nat (n - i) = Suc (nat (n - (i + 1)))" by simp
    with 1 True show ?thesis
      by (subst forBelow.simps) (simp del: forBelow.simps)
  next
    case False
    then show ?thesis by simp
  qed
qed

lemma length_buildCSVHeaders:
  "length (buildCSVHeaders counts) =
     14 + 2 * nat (count_Emails counts) + 2 * nat (count_Phones counts) +
     8 * nat (count_Addresses counts) + 2 * nat (count_Events counts) +
     2 * nat (count_Relations counts) + 2 * nat (count_Websites counts) +
     2 * nat (count_CustomFields counts) + 2"
  by (simp add: buildCSVHeaders_def Let_def length_forUpTo[where k=2] length_forUpTo[where k=8]
      del: forUpTo.simps)

lemma length_contactToCSVRow:
  "length (contactToCSVRow ToLower ToUpper contact counts groupNameMap) =
     14 + 2 * nat (count_Emails counts) + 2 * nat (count_Phones counts) +
     8 * nat (count_Addresses counts) + 2 * nat (count_Events counts) +
     2 * nat (count_Relations counts) + 2 * nat (count_Websites counts) +
     2 * nat (count_CustomFields counts) + 2"
  by (simp add: contactToCSVRow_def Let_def case_prod_unfold
      length_forBelow[where k=2] length_forBelow[where k=8]
      del: forBelow.simps)

lemma maxCount_Nil: "maxCount grp [] = 0"
  by (simp add: maxCount_def)

lemma maxCount_Cons: "maxCount grp (c # cs) = max (length (grp c)) (maxCount grp cs)"
proof -
  let ?S = "insert 0 ((\<lambda>contact. length (grp contact)) ` set cs)"
  have "insert 0 ((\<lambda>contact. length (grp contact)) ` set (c # cs)) = insert (length (grp c)) ?S"
    by auto
  moreover have "Max (insert (length (grp c)) ?S) = max (length (grp c)) (Max ?S)"
    by (rule Max_insert) simp_all
  ultimately show ?thesis by (simp add: maxCount_def)
qed

lemma countMaxFieldsLoop_max:
  assumes "0 \<le> count_Emails counts" "0 \<le> count_Phones counts"
    "0 \<le> count_Addresses counts" "0 \<le> count_Events counts"
    "0 \<le> count_Relations counts" "0 \<le> count_Websites counts"
    "0 \<le> count_CustomFields counts"
  shows "count_Emails (countMaxFieldsLoop counts cs) =
     max (count_Emails counts) (int (maxCount EmailAddresses cs)) \<and>
   count_Phones (countMaxFieldsLoop counts cs) =
     max (count_Phones counts) (int (maxCount PhoneNumbers cs)) \<and>
   count_Addresses (countMaxFieldsLoop counts cs) =
     max (count_Addresses counts) (int (maxCount Addresses cs)) \<and>
   count_Events (countMaxFieldsLoop counts cs) =
     max (count_Events counts) (int (maxCount Events cs)) \<and>
   count_Relations (countMaxFieldsLoop counts cs) =
     max (count_Relations counts) (int (maxCount Relations cs)) \<and>
   count_Websites (countMaxFieldsLoop counts cs) =
     max (count_Websites counts) (int (maxCount Urls cs)) \<and>
   count_CustomFields (countMaxFieldsLoop counts cs) =
     max (count_CustomFields counts) (int (maxCount UserDefined cs))"
  using assms
proof (induction cs arbitrary: counts)
  case Nil
  then show ?case by (simp add: maxCount_Nil)
next
  case (Cons c cs)
  let ?c7 = "counts
    \<lparr>count_Emails := max (count_Emails counts) (int (length (EmailAddresses c))),
     count_Phones := max (count_Phones counts) (int (length (PhoneNumbers c))),
     count_Addresses := max (count_Addresses counts) (int (length (Addresses c))),
     count_Events := max (count_Events counts) (int (length (Events c))),
     count_Relations := max (count_Relations counts) (int (length (Relations c))),
     count_Websites := max (count_Websites counts) (int (length (Urls c))),
     count_CustomFields := max (count_CustomFields counts) (int (length (UserDefined c)))\<rparr>"
  have step: "countMaxFieldsLoop counts (c # cs) = countMaxFieldsLoop ?c7 cs"
    by (simp add: Let_def max_def)
  have nonneg: "0 \<le> count_Emails ?c7" "0 \<le> count_Phones ?c7" "0 \<le> count_Addresses ?c7"
    "0 \<le> count_Events ?c7" "0 \<le> count_Relations ?c7" "0 \<le> count_Websites ?c7"
    "0 \<le> count_CustomFields ?c7"
    by simp_all
  have sel: "count_Emails ?c7 = max (count_Emails counts) (int (length (EmailAddresses c)))"
    "count_Phones ?c7 = max (count_Phones counts) (int (length (PhoneNumbers c)))"
    "count_Addresses ?c7 = max (count_Addresses counts) (int (length (Addresses c)))"
    "count_Events ?c7 = max (count_Events counts) (int (length (Events c)))"
    "count_Relations ?c7 = max (count_Relations counts) (int (length (Relations c)))"
    "count_Websites ?c7 = max (count_Websites counts) (int (length (Urls c)))"
    "count_CustomFields ?c7 = max (count_CustomFields counts) (int (length (UserDefined c)))"
    by simp_all
  from Cons.IH[OF nonneg] show ?case
    by (simp only: step sel maxCount_Cons of_nat_max max.assoc)
qed

lemma csvCounts_max:
  "count_Emails (csvCounts b) = int (max 1 (maxCount EmailAddresses (Contacts b)))"
  "count_Phones (csvCounts b) = int (max 1 (maxCount PhoneNumbers (Contacts b)))"
  "count_Addresses (csvCounts b) = int (maxCount Addresses (Contacts b))"
  "count_Events (csvCounts b) = int (maxCount Events (Contacts b))"
  "count_Relations (csvCounts b) = int (maxCount Relations (Contacts b))"
  "count_Websites (csvCounts b) = int (maxCount Urls (Contacts b))"
  "count_CustomFields (csvCounts b) = int (maxCount UserDefined (Contacts b))"
  using countMaxFieldsLoop_max[of
      "\<lparr>count_Emails = 0, count_Phones = 0, count_Addresses = 0, count_Events = 0,
        count_Relations = 0, count_Websites = 0, count_CustomFields = 0\<rparr>" "Contacts b"]
  by (simp_all add: csvCounts_def countMaxFields_def Let_def max_def)

lemma writeRows_result:
  "\<exists>k. k \<le> length cs \<and>
     snd (writeRows csvWrite ToLower ToUpper counts gm written cs) =
       written @ map (\<lambda>c. contactToCSVRow ToLower ToUpper c counts gm) (take k cs) \<and>
     (fst (writeRows csvWrite ToLower ToUpper counts gm written cs) = None \<longrightarrow> k = length cs)"
proof (induction cs arbitrary: written)
  case Nil
  show ?case by simp
next
  case (Cons c cs)
  define row where "row = contactToCSVRow ToLower ToUpper c counts gm"
  define rowf where "rowf = (\<lambda>c. contactToCSVRow ToLower ToUpper c counts gm)"
  have rowf: "rowf c = row" by (simp add: rowf_def row_def)
  show ?case
  proof (cases "csvWrite written row")
    case (Some err)
    then have "writeRows csvWrite ToLower ToUpper counts gm written (c # cs) =
                 (Some (Wrap ''failed to write CSV row'' err), written)"
      by (simp add: Let_def row_def)
    then show ?thesis
      by (intro exI[of _ 0]) simp
  next
    case None
    have step: "writeRows csvWrite ToLower ToUpper counts gm written (c # cs) =
                  writeRows csvWrite ToLower ToUpper counts gm (written @ [row]) cs"
      using None by (simp add: Let_def row_def)
    from Cons.IH[of "written @ [row]"] obtain k where k: "k \<le> length cs"
      and out: "snd (writeRows csvWrite ToLower ToUpper counts gm (written @ [row]) cs) =
        (written @ [row]) @ map rowf (take k cs)"
      and ok: "fst (writeRows csvWrite ToLower ToUpper counts gm (written @ [row]) cs) = None
                 \<longrightarrow> k = length cs"
      unfolding rowf_def by (elim exE conjE)
    have "snd (writeRows csvWrite ToLower ToUpper counts gm written (c # cs)) =
            written @ map rowf (take (Suc k) (c # cs))"
      unfolding step out by (simp add: rowf)
    moreover have "fst (writeRows csvWrite ToLower ToUpper counts gm written (c # cs)) = None
                 \<longrightarrow> Suc k = length (c # cs)"
      unfolding step using ok by simp
    moreover have "Suc k \<le> length (c # cs)" using k by simp
    ultimately show ?thesis
      unfolding rowf_def by (intro exI[of _ "Suc k"] conjI)
  qed
qed

lemma SaveToCSV_rows:
  "\<exists>k. k \<le> length (Contacts b) \<and>
     (snd (SaveToCSV osCreate csvWrite ToLower ToUpper b path) = [] \<or>
      snd (SaveToCSV osCreate csvWrite ToLower ToUpper b path) =
        buildCSVHeaders (csvCounts b) #
        map (\<lambda>c. contactToCSVRow ToLower ToUpper c (csvCounts b)
                    (groupNameMapLoop Map.empty (Groups b)))
          (take k (Contacts b))) \<and>
     (fst (SaveToCSV osCreate csvWrite ToLower ToUpper b path) = None \<longrightarrow>
      snd (SaveToCSV osCreate csvWrite ToLower ToUpper b path) =
        buildCSVHeaders (csvCounts b) #
        map (\<lambda>c. contactToCSVRow ToLower ToUpper c (csvCounts b)
                    (groupNameMapLoop Map.empty (Groups b)))
          (Contacts b))"
proof (cases "osCreate path")
  case (Some err)
  then have "SaveToCSV osCreate csvWrite ToLower ToUpper b path =
               (Some (Wrap ''failed to create CSV file'' err), [])"
    by (simp add: SaveToCSV_def Let_def)
  then show ?thesis by (intro exI[of _ 0]) simp
next
  case None
  show ?thesis
  proof (cases "csvWrite [] (buildCSVHeaders (csvCounts b))")
    case (Some err)
    with None have "SaveToCSV osCreate csvWrite ToLower ToUpper b path =
               (Some (Wrap ''failed to write CSV header'' err), [])"
      by (simp add: SaveToCSV_def Let_def)
    then show ?thesis by (intro exI[of _ 0]) simp
  next
    case hdr: None
    define rowf where "rowf = (\<lambda>c. contactToCSVRow ToLower ToUpper c (csvCounts b)
                    (groupNameMapLoop Map.empty (Groups b)))"
    have run: "SaveToCSV osCreate csvWrite ToLower ToUpper b path =
        writeRows csvWrite ToLower ToUpper (csvCounts b) (groupNameMapLoop Map.empty (Groups b))
          [buildCSVHeaders (csvCounts b)] (Contacts b)"
      using None hdr by (simp add: SaveToCSV_def Let_def)
    from writeRows_result[of "Contacts b" csvWrite ToLower ToUpper "csvCounts b"
        "groupNameMapLoop Map.empty (Groups b)" "[buildCSVHeaders (csvCounts b)]"]
    obtain k where k: "k \<le> length (Contacts b)"
      and out: "snd (SaveToCSV osCreate csvWrite ToLower ToUpper b path) =
                  [buildCSVHeaders (csvCounts b)] @ map rowf (take k (Contacts b))"
      and ok: "fst (SaveToCSV osCreate csvWrite ToLower ToUpper b path) = None
                 \<longrightarrow> k = length (Contacts b)"
      unfolding run rowf_def by (elim exE conjE)
    have "fst (SaveToCSV osCreate csvWrite ToLower ToUpper b path) = None \<longrightarrow>
          snd (SaveToCSV osCreate csvWrite ToLower ToUpper b path) =
            buildCSVHeaders (csvCounts b) # map rowf (Contacts b)"
      using ok out by simp
    moreover have "snd (SaveToCSV osCreate csvWrite ToLower ToUpper b path) =
            buildCSVHeaders (csvCounts b) # map rowf (take k (Contacts b))"
      using out by simp
    ultimately show ?thesis
      using k unfolding rowf_def by (intro exI[of _ k] conjI disjI2)
  qed
qed

text \<open>
  Claim C9. The header row is a function of the counts alone, and it has 14 columns for
  the singular fields, two for every email, phone, event, relation, website and custom
  field counted, eight for every address counted, and two for notes and labels. For an
  archive the counts are the maximum occurrence counts of the groups over its records,
  with a minimum of one for emails and phones; two archives with the same records have
  the same header; and the header is the first record that \<^verbatim>\<open>SaveToCSV\<close> writes.
\<close>

theorem header_width:
  "length (buildCSVHeaders counts) =
     14 + 2 * nat (count_Emails counts) + 2 * nat (count_Phones counts) +
     8 * nat (count_Addresses counts) + 2 * nat (count_Events counts) +
     2 * nat (count_Relations counts) + 2 * nat (count_Websites counts) +
     2 * nat (count_CustomFields counts) + 2 \<and>
   length (buildCSVHeaders (csvCounts b)) =
     14 + 2 * max 1 (maxCount EmailAddresses (Contacts b)) +
     2 * max 1 (maxCount PhoneNumbers (Contacts b)) +
     8 * maxCount Addresses (Contacts b) + 2 * maxCount Events (Contacts b) +
     2 * maxCount Relations (Contacts b) + 2 * maxCount Urls (Contacts b) +
     2 * maxCount UserDefined (Contacts b) + 2 \<and>
   (Contacts b = Contacts b' \<longrightarrow>
      buildCSVHeaders (csvCounts b) = buildCSVHeaders (csvCounts b')) \<and>
   (fst (SaveToCSV osCreate csvWrite ToLower ToUpper b path) = None \<longrightarrow>
      hd (snd (SaveToCSV osCreate csvWrite ToLower ToUpper b path)) =
        buildCSVHeaders (csvCounts b))"
proof (intro conjI impI)
  show "length (buildCSVHeaders counts) =
     14 + 2 * nat (count_Emails counts) + 2 * nat (count_Phones counts) +
     8 * nat (count_Addresses counts) + 2 * nat (count_Events counts) +
     2 * nat (count_Relations counts) + 2 * nat (count_Websites counts) +
     2 * nat (count_CustomFields counts) + 2"
    by (rule length_buildCSVHeaders)
  show "length (buildCSVHeaders (csvCounts b)) =
     14 + 2 * max 1 (maxCount EmailAddresses (Contacts b)) +
     2 * max 1 (maxCount PhoneNumbers (Contacts b)) +
     8 * maxCount Addresses (Contacts b) + 2 * maxCount Events (Contacts b) +
     2 * maxCount Relations (Contacts b) + 2 * maxCount Urls (Contacts b) +
     2 * maxCount UserDefined (Contacts b) + 2"
    by (simp only: length_buildCSVHeaders csvCounts_max nat_int)
  show "buildCSVHeaders (csvCounts b) = buildCSVHeaders (csvCounts b')"
    if "Contacts b = Contacts b'"
    using that by (simp add: csvCounts_def)
  show "hd (snd (SaveToCSV osCreate csvWrite ToLower ToUpper b path)) =
        buildCSVHeaders (csvCounts b)"
    if "fst (SaveToCSV osCreate csvWrite ToLower ToUpper b path) = None"
    using that SaveToCSV_rows[of b osCreate csvWrite ToLower ToUpper path]
    by (elim exE conjE) simp
qed

text \<open>
  Claim C10. For every vector of counts and every contact, the row of the contact has as
  many cells as the header for the same counts. Every record that \<^verbatim>\<open>SaveToCSV\<close> writes
  has the width of the header; when it returns no error, it has written the header and
  one row for each contact, in order; and no contact of the archive has more entries in a
  group than the count of the group, so no entry is cut off.
\<close>

theorem rectangular_export:
  "length (contactToCSVRow ToLower ToUpper contact counts groupNameMap) =
     length (buildCSVHeaders counts) \<and>
   (\<forall>row \<in> set (snd (SaveToCSV osCreate csvWrite ToLower ToUpper b path)).
      length row = length (buildCSVHeaders (csvCounts b))) \<and>
   (fst (SaveToCSV osCreate csvWrite ToLower ToUpper b path) = None \<longrightarrow>
      snd (SaveToCSV osCreate csvWrite ToLower ToUpper b path) =
        buildCSVHeaders (csvCounts b) #
        map (\<lambda>c. contactToCSVRow ToLower ToUpper c (csvCounts b)
                    (groupNameMapLoop Map.empty (Groups b)))
          (Contacts b)) \<and>
   (\<forall>c \<in> set (Contacts b).
      int (length (EmailAddresses c)) \<le> count_Emails (csvCounts b) \<and>
      int (length (PhoneNumbers c)) \<le> count_Phones (csvCounts b) \<and>
      int (length (Addresses c)) \<le> count_Addresses (csvCounts b) \<and>
      int (length (Events c)) \<le> count_Events (csvCounts b) \<and>
      int (length (Relations c)) \<le> count_Relations (csvCounts b) \<and>
      int (length (Urls c)) \<le> count_Websites (csvCounts b) \<and>
      int (length (UserDefined c)) \<le> count_CustomFields (csvCounts b))"
proof (intro conjI)
  show width: "length (contactToCSVRow ToLower ToUpper contact counts groupNameMap) =
     length (buildCSVHeaders counts)" for contact counts groupNameMap
    by (simp only: length_contactToCSVRow length_buildCSVHeaders)
  from SaveToCSV_rows[of b osCreate csvWrite ToLower ToUpper path]
  obtain k where
    rows: "snd (SaveToCSV osCreate csvWrite ToLower ToUpper b path) = [] \<or>
      snd (SaveToCSV osCreate csvWrite ToLower ToUpper b path) =
        buildCSVHeaders (csvCounts b) #
        map (\<lambda>c. contactToCSVRow ToLower ToUpper c (csvCounts b)
                    (groupNameMapLoop Map.empty (Groups b)))
          (take k (Contacts b))"
    and ok: "fst (SaveToCSV osCreate csvWrite ToLower ToUpper b path) = None \<longrightarrow>
      snd (SaveToCSV osCreate csvWrite ToLower ToUpper b path) =
        buildCSVHeaders (csvCounts b) #
        map (\<lambda>c. contactToCSVRow ToLower ToUpper c (csvCounts b)
                    (groupNameMapLoop Map.empty (Groups b)))
          (Contacts b)"
    by (elim exE conjE)
  from ok show "fst (SaveToCSV osCreate csvWrite ToLower ToUpper b path) = None \<longrightarrow>
      snd (SaveToCSV osCreate csvWrite ToLower ToUpper b path) =
        buildCSVHeaders (csvCounts b) #
        map (\<lambda>c. contactToCSVRow ToLower ToUpper c (csvCounts b)
                    (groupNameMapLoop Map.empty (Groups b)))
          (Contacts b)" .
  from rows show "\<forall>row \<in> set (snd (SaveToCSV osCreate csvWrite ToLower ToUpper b path)).
      length row = length (buildCSVHeaders (csvCounts b))"
  proof
    assume "snd (SaveToCSV osCreate csvWrite ToLower ToUpper b path) = []"
    then show ?thesis by simp
  next
    assume "snd (SaveToCSV osCreate csvWrite ToLower ToUpper b path) =
        buildCSVHeaders (csvCounts b) #
        map (\<lambda>c. contactToCSVRow ToLower ToUpper c (csvCounts b)
                    (groupNameMapLoop Map.empty (Groups b)))
          (take k (Contacts b))"
    then show ?thesis by (auto simp: width)
  qed
  have le: "length (grp c) \<le> maxCount grp cs" if "c \<in> set cs" for grp :: "person \<Rightarrow> 'a list" and c cs
    using that by (simp add: maxCount_def)
  show "\<forall>c \<in> set (Contacts b).
      int (length (EmailAddresses c)) \<le> count_Emails (csvCounts b) \<and>
      int (length (PhoneNumbers c)) \<le> count_Phones (csvCounts b) \<and>
      int (length (Addresses c)) \<le> count_Addresses (csvCounts b) \<and>
      int (length (Events c)) \<le> count_Events (csvCounts b) \<and>
      int (length (Relations c)) \<le> count_Relations (csvCounts b) \<and>
      int (length (Urls c)) \<le> count_Websites (csvCounts b) \<and>
      int (length (UserDefined c)) \<le> count_CustomFields (csvCounts b)"
  proof
    fix c assume c: "c \<in> set (Contacts b)"
    from le[OF c, of EmailAddresses] le[OF c, of PhoneNumbers] le[OF c, of Addresses]
      le[OF c, of Events] le[OF c, of Relations] le[OF c, of Urls] le[OF c, of UserDefined]
    show "int (length (EmailAddresses c)) \<le> count_Emails (csvCounts b) \<and>
      int (length (PhoneNumbers c)) \<le> count_Phones (csvCounts b) \<and>
      int (length (Addresses c)) \<le> count_Addresses (csvCounts b) \<and>
      int (length (Events c)) \<le> count_Events (csvCounts b) \<and>
      int (length (Relations c)) \<le> count_Relations (csvCounts b) \<and>
      int (length (Urls c)) \<le> count_Websites (csvCounts b) \<and>
      int (length (UserDefined c)) \<le> count_CustomFields (csvCounts b)"
      by (simp add: csvCounts_max max_def)
  qed
qed

lemma csvBackup_maxCounts:
  "maxCount EmailAddresses (Contacts csvBackup) = 2"
  "maxCount PhoneNumbers (Contacts csvBackup) = 0"
  "maxCount Addresses (Contacts csvBackup) = 0"
  "maxCount Events (Contacts csvBackup) = 0"
  "maxCount Relations (Contacts csvBackup) = 0"
  "maxCount Urls (Contacts csvBackup) = 0"
  "maxCount UserDefined (Contacts csvBackup) = 0"
  by (simp_all add: csvBackup_def maxCount_Cons maxCount_Nil csvContact1_def csvContact2_def
      emptyPerson_def)

lemma csvBackup_saved:
  "fst (SaveToCSV (\<lambda>p. None) (\<lambda>written r. None) asciiLower asciiUpper csvBackup ''out.csv'') = None"
  by (simp add: SaveToCSV_def csvBackup_def Let_def)

text \<open>
  Counts of two emails, one phone and one address give 30 columns; the sample archive,
  whose first record has two emails, gives 22.
\<close>

theorem header_width_witness:
  "length (buildCSVHeaders
      \<lparr>count_Emails = 2, count_Phones = 1, count_Addresses = 1, count_Events = 0,
       count_Relations = 0, count_Websites = 0, count_CustomFields = 0\<rparr>) = 30 \<and>
   length (buildCSVHeaders (csvCounts csvBackup)) = 22 \<and>
   buildCSVHeaders (csvCounts csvBackup) = buildCSVHeaders (csvCounts (csvBackup\<lparr>Groups := []\<rparr>)) \<and>
   hd (snd (SaveToCSV (\<lambda>p. None) (\<lambda>written r. None) asciiLower asciiUpper csvBackup
             ''out.csv'')) = buildCSVHeaders (csvCounts csvBackup)"
proof -
  note w = header_width[of
      "\<lparr>count_Emails = 2, count_Phones = 1, count_Addresses = 1, count_Events = 0,
        count_Relations = 0, count_Websites = 0, count_CustomFields = 0\<rparr>"
      csvBackup "csvBackup\<lparr>Groups := []\<rparr>" "\<lambda>p. None" "\<lambda>written r. None"
      asciiLower asciiUpper "''out.csv''"]
  from w[THEN conjunct1] have a: "length (buildCSVHeaders
      \<lparr>count_Emails = 2, count_Phones = 1, count_Addresses = 1, count_Events = 0,
       count_Relations = 0, count_Websites = 0, count_CustomFields = 0\<rparr>) = 30"
    by simp
  from w[THEN conjunct2, THEN conjunct1]
  have b: "length (buildCSVHeaders (csvCounts csvBackup)) = 22"
    by (simp add: csvBackup_maxCounts)
  from w[THEN conjunct2, THEN conjunct2, THEN conjunct1]
  have c: "buildCSVHeaders (csvCounts csvBackup) =
      buildCSVHeaders (csvCounts (csvBackup\<lparr>Groups := []\<rparr>))"
    by simp
  from w[THEN conjunct2, THEN conjunct2, THEN conjunct2] csvBackup_saved have d: "hd (snd (SaveToCSV (\<lambda>p. None) (\<lambda>written r. None)
      asciiLower asciiUpper csvBackup ''out.csv'')) = buildCSVHeaders (csvCounts csvBackup)"
    by simp
  from a b c d show ?thesis by (intro conjI)
qed

lemma csvBackup_cells:
  "take 4 (drop 14 (contactToCSVRow asciiLower asciiUpper csvContact1 (csvCounts csvBackup)
      (groupNameMapLoop Map.empty (Groups csvBackup)))) =
     [''Home'', ''ada@example.org'', ''Work'', ''ada@work.example'']"
  "take 4 (drop 14 (contactToCSVRow asciiLower asciiUpper csvContact2 (csvCounts csvBackup)
      (groupNameMapLoop Map.empty (Groups csvBackup)))) = ['''', '''', '''', '''']"
  "last (contactToCSVRow asciiLower asciiUpper csvContact1 (csvCounts csvBackup)
      (groupNameMapLoop Map.empty (Groups csvBackup))) = ''Team''"
  by code_simp+

text \<open>
  The export of the sample archive: three records of 22 cells; the first row has both
  emails with their labels, the second has four blank cells there, and the labels of the
  first row are the name of its user group.
\<close>

theorem rectangular_export_witness:
  "fst (SaveToCSV (\<lambda>p. None) (\<lambda>written r. None) asciiLower asciiUpper csvBackup ''out.csv'')
     = None \<and>
   map length
     (snd (SaveToCSV (\<lambda>p. None) (\<lambda>written r. None) asciiLower asciiUpper csvBackup
             ''out.csv'')) = [22, 22, 22] \<and>
   take 4 (drop 14
     (snd (SaveToCSV (\<lambda>p. None) (\<lambda>written r. None) asciiLower asciiUpper csvBackup
             ''out.csv'') ! 1)) =
     [''Home'', ''ada@example.org'', ''Work'', ''ada@work.example''] \<and>
   take 4 (drop 14
     (snd (SaveToCSV (\<lambda>p. None) (\<lambda>written r. None) asciiLower asciiUpper csvBackup
             ''out.csv'') ! 2)) = ['''', '''', '''', ''''] \<and>
   last (snd (SaveToCSV (\<lambda>p. None) (\<lambda>written r. None) asciiLower asciiUpper csvBackup
                ''out.csv'') ! 1) = ''Team''"
proof -
  let ?gm = "groupNameMapLoop Map.empty (Groups csvBackup)"
  let ?out = "snd (SaveToCSV (\<lambda>p. None) (\<lambda>written r. None) asciiLower asciiUpper csvBackup
                     ''out.csv'')"
  note w1 = rectangular_export[of asciiLower asciiUpper csvContact1 "csvCounts csvBackup" ?gm
      "\<lambda>p. None" "\<lambda>written r. None" csvBackup "''out.csv''"]
  note w2 = rectangular_export[of asciiLower asciiUpper csvContact2 "csvCounts csvBackup" ?gm
      "\<lambda>p. None" "\<lambda>written r. None" csvBackup "''out.csv''"]
  have hdr: "length (buildCSVHeaders (csvCounts csvBackup)) = 22"
    by (simp add: length_buildCSVHeaders csvCounts_max csvBackup_maxCounts)
  have cs: "Contacts csvBackup = [csvContact1, csvContact2]"
    by (simp add: csvBackup_def)
  from w1[THEN conjunct2, THEN conjunct2, THEN conjunct1] csvBackup_saved
  have out: "?out = [buildCSVHeaders (csvCounts csvBackup),
                     contactToCSVRow asciiLower asciiUpper csvContact1 (csvCounts csvBackup) ?gm,
                     contactToCSVRow asciiLower asciiUpper csvContact2 (csvCounts csvBackup) ?gm]"
    by (simp add: cs)
  have lens: "map length ?out = [22, 22, 22]"
    unfolding out using w1[THEN conjunct1] w2[THEN conjunct1] hdr by simp
  show ?thesis
    using csvBackup_saved lens csvBackup_cells
    by (simp add: out)
qed

end
